theory Spec2Isabelle
  imports Main "HOL-Library.Word" "HOL-Library.AList"
begin

unbundle bit_operations_syntax

text \<open>
  The logging package of the agent: a fan-out dispatcher over a daily rotating file sink
  and a colorizing terminal sink, built once per process by \<open>InitLogger\<close>. The
  repository holds two successive versions of the package; the later one, with
  \<open>LogOutput\<close>, \<open>fileHandlerWrapper\<close> and \<open>TerminalHandler\<close>, is the one embedded
  here. Go's standard library (\<open>os\<close>, \<open>time\<close>, \<open>log/slog\<close>, \<open>errors\<close>,
  \<open>strings\<close>, \<open>sync\<close>) is modelled as far as the package uses it.
\<close>

section \<open>Errors\<close>

text \<open>
  The package reports failures as Go \<open>error\<close> values. An operating-system call that
  fails yields a \<open>PathError\<close> naming the call, a write or close on a released
  \<open>*os.File\<close> yields \<open>ErrClosed\<close>, \<open>fmt.Errorf(msg, ...)\<close> with an optional
  wrapped cause (\<open>%w\<close>) is \<open>Errorf\<close>, and the value built by \<open>errors.Join\<close> is
  \<open>Joined\<close>. A nil error is \<open>None\<close> of \<open>error option\<close>.
\<close>

datatype syscall =
    MkdirAll string
  | OpenFile string string
  | ReadDir string
  | Remove string string

datatype error =
    PathError syscall
  | ErrClosed
  | Errorf string "error option"
  | Joined "error list"

text \<open>\<open>errors.Join\<close>: nil when there is nothing to join, else one error wrapping all of them,
  in order. (Its callers here pass non-nil errors only.)\<close>

definition errors_Join :: "error list \<Rightarrow> error option" where
  "errors_Join errs = (if errs = [] then None else Some (Joined errs))"

section \<open>Time (package \<open>time\<close>, UTC)\<close>

text \<open>
  A \<open>time.Time\<close> is an instant; it is modelled as the number of nanoseconds since the Unix
  epoch, read in UTC. \<open>t.Format("2006-01-02")\<close> and \<open>time.Parse("2006-01-02", s)\<close> are
  library functions; they are modelled by the proleptic Gregorian calendar arithmetic
  below. \<open>Parse\<close> accepts exactly four digits, a dash, two digits, a dash, two digits,
  with the month in 1..12 and the day within the month, and returns midnight UTC.
\<close>

type_synonym time = int

definition nsPerDay :: int where
  "nsPerDay = 86400 * 1000000000"


definition civil_from_days :: "int \<Rightarrow> int \<times> int \<times> int" where
  "civil_from_days z0 =
     (let z = z0 + 719468;
          era = z div 146097;
          doe = z - era * 146097;
          yoe = (doe - doe div 1460 + doe div 36524 - doe div 146096) div 365;
          doy = doe - (365 * yoe + yoe div 4 - yoe div 100);
          mp = (5 * doy + 2) div 153;
          d = doy - (153 * mp + 2) div 5 + 1;
          m = (if mp < 10 then mp + 3 else mp - 9);
          y = yoe + era * 400
      in (if m \<le> 2 then y + 1 else y, m, d))"

definition digit :: "int \<Rightarrow> char" where
  "digit n = ''0123456789'' ! nat (n mod 10)"

definition pad2 :: "int \<Rightarrow> string" where
  "pad2 n = [digit (n div 10), digit n]"

fun itoa :: "nat \<Rightarrow> string" where
  "itoa n = (if n < 10 then [digit (int n)] else itoa (n div 10) @ [digit (int n)])"

declare itoa.simps [simp del]

text \<open>The year is printed zero-padded to width four, with a sign when negative.\<close>

definition pad4 :: "int \<Rightarrow> string" where
  "pad4 y =
     (let s = itoa (nat \<bar>y\<bar>)
      in (if y < 0 then ''-'' else []) @ replicate (4 - length s) (CHR ''0'') @ s)"

definition time_Format_date :: "time \<Rightarrow> string" where
  "time_Format_date t =
     (case civil_from_days (t div nsPerDay) of
        (y, m, d) \<Rightarrow> pad4 y @ ''-'' @ pad2 m @ ''-'' @ pad2 d)"








section \<open>Records and the encoder (package \<open>log/slog\<close>)\<close>

definition LevelDebug :: int where "LevelDebug = -4"
definition LevelInfo :: int where "LevelInfo = 0"
definition LevelWarn :: int where "LevelWarn = 4"
definition LevelError :: int where "LevelError = 8"

datatype Attr = Attr string string

record Record =
  Time :: time
  Message :: string
  rLevel :: int
  Attrs :: "Attr list"

record HandlerOptions =
  optLevel :: int
  optAddSource :: bool

text \<open>A decoration bound by \<open>WithAttrs\<close> or \<open>WithGroup\<close>.\<close>

datatype deco = BoundAttrs "Attr list" | BoundGroup string

text \<open>
  The byte syntax of the text and JSON encoders is outside the package. What is written
  to a file is therefore kept as a list of chunks: literal bytes, or the output of the
  encoder for one record, determined by the format (JSON or text), the handler options,
  the decorations bound to the encoder, and the record.
\<close>

datatype chunk =
    Bytes string
  | Formatted bool HandlerOptions "deco list" Record

section \<open>The operating system\<close>

text \<open>
  A directory is an association list from entry names to entries; the file system maps a
  directory path to its directory. \<open>filepath.Join(dir, name)\<close> is the pair of the two.
  An \<open>*os.File\<close> is an index into the table \<open>files\<close> of every file ever opened by the
  process. \<open>fails\<close> is the environment's choice of the calls that fail (permissions, full
  disks); \<open>clock\<close> is what \<open>time.Now()\<close> returns.
\<close>

datatype entry = IsDir | File "chunk list"

type_synonym directory = "(string \<times> entry) list"

record os_File =
  fdir :: string
  fname :: string
  fopen :: bool

record os =
  fs :: "string \<Rightarrow> directory option"
  files :: "os_File list"
  fails :: "syscall \<Rightarrow> bool"
  clock :: time

definition time_Now :: "os \<Rightarrow> time" where
  "time_Now w = clock w"

definition os_MkdirAll :: "string \<Rightarrow> os \<Rightarrow> error option \<times> os" where
  "os_MkdirAll d w =
     (if fails w (MkdirAll d) then (Some (PathError (MkdirAll d)), w)
      else case fs w d of
             None \<Rightarrow> (None, w\<lparr>fs := (fs w)(d \<mapsto> [])\<rparr>)
           | Some _ \<Rightarrow> (None, w))"

text \<open>\<open>os.OpenFile(path, O_CREATE|O_WRONLY|O_APPEND, 0644)\<close>: the file is created empty
  when absent and never truncated; the new handle is the next free index.\<close>

definition os_OpenFile :: "string \<Rightarrow> string \<Rightarrow> os \<Rightarrow> (error + nat) \<times> os" where
  "os_OpenFile d n w =
     (if fails w (OpenFile d n) then (Inl (PathError (OpenFile d n)), w)
      else case fs w d of
             None \<Rightarrow> (Inl (PathError (OpenFile d n)), w)
           | Some es \<Rightarrow>
               (case map_of es n of
                  Some IsDir \<Rightarrow> (Inl (PathError (OpenFile d n)), w)
                | Some (File c) \<Rightarrow>
                    (Inr (length (files w)),
                     w\<lparr>files := files w @ [\<lparr>fdir = d, fname = n, fopen = True\<rparr>]\<rparr>)
                | None \<Rightarrow>
                    (Inr (length (files w)),
                     w\<lparr>fs := (fs w)(d \<mapsto> AList.update n (File []) es),
                       files := files w @ [\<lparr>fdir = d, fname = n, fopen = True\<rparr>]\<rparr>)))"

definition fs_append ::
  "string \<Rightarrow> string \<Rightarrow> chunk list \<Rightarrow> (string \<Rightarrow> directory option) \<Rightarrow> (string \<Rightarrow> directory option)" where
  "fs_append d n b f =
     (case f d of
        None \<Rightarrow> f
      | Some es \<Rightarrow>
          (case map_of es n of
             Some (File c) \<Rightarrow> f(d \<mapsto> AList.update n (File (c @ b)) es)
           | _ \<Rightarrow> f))"

text \<open>A write through an open handle appends to the file it names (to nothing when the
  file has been unlinked meanwhile); a write through a closed handle fails.\<close>

definition os_File_Write :: "nat \<Rightarrow> chunk list \<Rightarrow> os \<Rightarrow> error option \<times> os" where
  "os_File_Write f b w =
     (if f < length (files w) \<and> fopen (files w ! f)
      then (None, w\<lparr>fs := fs_append (fdir (files w ! f)) (fname (files w ! f)) b (fs w)\<rparr>)
      else (Some ErrClosed, w))"

definition os_File_Close :: "nat \<Rightarrow> os \<Rightarrow> error option \<times> os" where
  "os_File_Close f w =
     (if f < length (files w) \<and> fopen (files w ! f)
      then (None, w\<lparr>files := (files w)[f := (files w ! f)\<lparr>fopen := False\<rparr>]\<rparr>)
      else (Some ErrClosed, w))"



text \<open>The content of a regular file, when there is one at that path.\<close>

definition content :: "os \<Rightarrow> string \<Rightarrow> string \<Rightarrow> chunk list option" where
  "content w d n =
     (case fs w d of
        None \<Rightarrow> None
      | Some es \<Rightarrow> (case map_of es n of Some (File c) \<Rightarrow> Some c | _ \<Rightarrow> None))"

section \<open>Configuration\<close>

text \<open>\<open>LogOutput\<close> is a Go \<open>int\<close> used as a bit set. The constants are declared with
  \<open>iota\<close>: \<open>OutputNone = 0\<close> on line 0, \<open>OutputFile = 1 << iota\<close> on line 1,
  \<open>OutputTerminal\<close> repeating that expression on line 2.\<close>

type_synonym LogOutput = "64 word"

definition OutputNone :: LogOutput where "OutputNone = 0"
definition OutputFile :: LogOutput where "OutputFile = push_bit 1 1"
definition OutputTerminal :: LogOutput where "OutputTerminal = push_bit 2 1"
definition OutputBoth :: LogOutput where "OutputBoth = OutputFile OR OutputTerminal"

definition LogFormatText :: string where "LogFormatText = ''text''"
definition LogFormatJSON :: string where "LogFormatJSON = ''json''"

record LogConfig =
  Output :: LogOutput
  Dir :: string
  FilenamePrefix :: string
  RetainDays :: int
  Format :: string
  Level :: int
  AddSource :: bool

text \<open>\<open>validate\<close> works on the caller's configuration through a pointer; the model returns
  the configuration as it leaves it, next to the error.\<close>

definition validate :: "LogConfig \<Rightarrow> error option \<times> LogConfig" where
  "validate cfg =
     (if Output cfg = OutputNone
      then (Some (Errorf ''output target cannot be OutputNone'' None), cfg)
      else
        let cfg1 =
              (if Output cfg AND OutputFile \<noteq> 0
               then
                 let c1 = (if Dir cfg = [] then cfg\<lparr>Dir := ''./logs''\<rparr> else cfg);
                     c2 = (if FilenamePrefix c1 = [] then c1\<lparr>FilenamePrefix := ''app''\<rparr> else c1)
                 in (if RetainDays c2 \<le> 0 then c2\<lparr>RetainDays := 30\<rparr> else c2)
               else cfg);
            cfg2 = (if Format cfg1 = [] then cfg1\<lparr>Format := LogFormatText\<rparr> else cfg1)
        in if Format cfg2 \<noteq> LogFormatText \<and> Format cfg2 \<noteq> LogFormatJSON
           then (Some (Errorf (''unsupported log format: '' @ Format cfg2) None), cfg2)
           else (None, cfg2))"

section \<open>The encoder bound to a file\<close>

text \<open>
  \<open>slog.NewTextHandler(file, opts)\<close> and \<open>slog.NewJSONHandler(file, opts)\<close>: an encoder
  bound to one \<open>*os.File\<close>. Its \<open>WithAttrs\<close> and \<open>WithGroup\<close> return an encoder on
  the same file with one more decoration; its \<open>Handle\<close> formats the record and writes
  it with one \<open>Write\<close>, whose error it returns.
\<close>

record slog_Handler =
  isJSON :: bool
  writer :: nat
  hopts :: HandlerOptions
  bound :: "deco list"

definition slog_NewTextHandler :: "nat \<Rightarrow> HandlerOptions \<Rightarrow> slog_Handler" where
  "slog_NewTextHandler f opts = \<lparr>isJSON = False, writer = f, hopts = opts, bound = []\<rparr>"

definition slog_NewJSONHandler :: "nat \<Rightarrow> HandlerOptions \<Rightarrow> slog_Handler" where
  "slog_NewJSONHandler f opts = \<lparr>isJSON = True, writer = f, hopts = opts, bound = []\<rparr>"

definition slog_WithAttrs :: "slog_Handler \<Rightarrow> Attr list \<Rightarrow> slog_Handler" where
  "slog_WithAttrs h attrs = h\<lparr>bound := bound h @ [BoundAttrs attrs]\<rparr>"

definition slog_WithGroup :: "slog_Handler \<Rightarrow> string \<Rightarrow> slog_Handler" where
  "slog_WithGroup h name = h\<lparr>bound := bound h @ [BoundGroup name]\<rparr>"

definition slog_Handle :: "slog_Handler \<Rightarrow> Record \<Rightarrow> os \<Rightarrow> error option \<times> os" where
  "slog_Handle h r w =
     os_File_Write (writer h) [Formatted (isJSON h) (hopts h) (bound h) r] w"

section \<open>The rotating file sink\<close>

text \<open>
  \<open>DailyFileHandler\<close>. The mutex \<open>mu\<close> makes each method body one critical section; a
  method is modelled as one step on the sink and the operating system. \<open>closeOnce\<close> is
  the done flag of the \<open>sync.Once\<close>; the ticker and the channel are absent (nil), or in
  one of their two states. The diagnostics that the sink sends to the process default
  logger (\<open>slog.Warn\<close>, \<open>slog.Info\<close>) are not modelled.
\<close>

datatype ticker = Running | Stopped

datatype chan = ChanOpen | ChanClosed

record DailyFileHandler =
  cfg :: LogConfig
  curDate :: string
  curFile :: "nat option"
  curInner :: "slog_Handler option"
  cleanTicker :: "ticker option"
  cleanDone :: "chan option"
  closeOnce :: bool

definition DailyFileHandler_Enabled :: "DailyFileHandler \<Rightarrow> int \<Rightarrow> bool" where
  "DailyFileHandler_Enabled h level = (Level (cfg h) \<le> level)"

definition logFilename :: "LogConfig \<Rightarrow> string \<Rightarrow> string" where
  "logFilename c date = FilenamePrefix c @ ''-'' @ date @ ''.log''"

definition rotateIfNeeded ::
  "time \<Rightarrow> DailyFileHandler \<Rightarrow> os \<Rightarrow> error option \<times> DailyFileHandler \<times> os" where
  "rotateIfNeeded t h w =
     (let date = time_Format_date t
      in if date = curDate h \<and> curInner h \<noteq> None then (None, h, w)
         else
           let (h1, w1) =
                 (case curFile h of
                    None \<Rightarrow> (h, w)
                  | Some f \<Rightarrow> (h\<lparr>curFile := None, curInner := None\<rparr>, snd (os_File_Close f w)));
               filename = logFilename (cfg h1) date
           in case os_OpenFile (Dir (cfg h1)) filename w1 of
                (Inl err, w2) \<Rightarrow> (Some (Errorf ''open log file failed: '' (Some err)), h1, w2)
              | (Inr file, w2) \<Rightarrow>
                  let opts = \<lparr>optLevel = Level (cfg h1), optAddSource = AddSource (cfg h1)\<rparr>;
                      inner = (if Format (cfg h1) = LogFormatJSON
                               then slog_NewJSONHandler file opts
                               else slog_NewTextHandler file opts)
                  in (None, h1\<lparr>curDate := date, curFile := Some file, curInner := Some inner\<rparr>, w2))"

text \<open>\<open>NewFileHandler\<close> starts the sweep loop in a goroutine of its own; the loop is not
  part of the constructor's step.\<close>

definition NewFileHandler :: "LogConfig \<Rightarrow> os \<Rightarrow> (error + DailyFileHandler) \<times> os" where
  "NewFileHandler c w =
     (case os_MkdirAll (Dir c) w of
        (Some err, w1) \<Rightarrow> (Inl (Errorf ''create log directory failed: '' (Some err)), w1)
      | (None, w1) \<Rightarrow>
          let handler = \<lparr>cfg = c, curDate = [], curFile = None, curInner = None,
                         cleanTicker = None, cleanDone = Some ChanOpen, closeOnce = False\<rparr>
          in case rotateIfNeeded (time_Now w1) handler w1 of
               (Some err, h, w2) \<Rightarrow> (Inl err, w2)
             | (None, h, w2) \<Rightarrow> (Inr (h\<lparr>cleanTicker := Some Running\<rparr>), w2))"

definition DailyFileHandler_Handle ::
  "DailyFileHandler \<Rightarrow> Record \<Rightarrow> os \<Rightarrow> error option \<times> DailyFileHandler \<times> os" where
  "DailyFileHandler_Handle h r w =
     (case rotateIfNeeded (Time r) h w of
        (Some err, h1, w1) \<Rightarrow> (Some err, h1, w1)
      | (None, h1, w1) \<Rightarrow>
          (case curInner h1 of
             None \<Rightarrow> (Some (Errorf ''file handler not initialized'' None), h1, w1)
           | Some inner \<Rightarrow>
               (case slog_Handle inner r w1 of (err, w2) \<Rightarrow> (err, h1, w2))))"

text \<open>
  \<open>Close\<close>. Closing a channel that is already closed panics; the panic is the \<open>Inl\<close> of
  the result. A call that finds \<open>closeOnce\<close> done skips the body and returns the nil
  error its local variable holds.
\<close>

definition DailyFileHandler_Close ::
  "DailyFileHandler \<Rightarrow> os \<Rightarrow> (string + error option) \<times> DailyFileHandler \<times> os" where
  "DailyFileHandler_Close h w =
     (if closeOnce h then (Inr None, h, w)
      else
        let h1 = (case cleanTicker h of
                    Some _ \<Rightarrow> h\<lparr>cleanTicker := Some Stopped, closeOnce := True\<rparr>
                  | None \<Rightarrow> h\<lparr>closeOnce := True\<rparr>)
        in if cleanDone h1 = Some ChanClosed then (Inl ''close of closed channel'', h1, w)
           else
             let h2 = (case cleanDone h1 of Some _ \<Rightarrow> h1\<lparr>cleanDone := Some ChanClosed\<rparr> | None \<Rightarrow> h1)
             in case curFile h2 of
                  None \<Rightarrow> (Inr None, h2, w)
                | Some f \<Rightarrow>
                    (case os_File_Close f w of
                       (err, w1) \<Rightarrow> (Inr err, h2\<lparr>curFile := None, curInner := None\<rparr>, w1)))"







section \<open>The terminal sink\<close>

text \<open>
  \<open>TerminalHandler\<close>. The buffer taken from the pool is reset before use, so each call
  starts from an empty buffer; the text encoder writing into that buffer cannot fail.
\<close>

record TerminalHandler =
  out :: nat
  tinner :: "slog_Handler option"
  topts :: HandlerOptions
  colorize :: bool

definition os_Stderr :: nat where
  "os_Stderr = 2"

definition NewTerminalHandler :: "nat \<Rightarrow> LogConfig \<Rightarrow> TerminalHandler" where
  "NewTerminalHandler f c =
     \<lparr>out = f, tinner = None,
      topts = \<lparr>optLevel = Level c, optAddSource = AddSource c\<rparr>, colorize = True\<rparr>"

definition colorReset :: string where "colorReset = CHR 0x1B # ''[0m''"
definition colorRed :: string where "colorRed = CHR 0x1B # ''[31m''"
definition colorGreen :: string where "colorGreen = CHR 0x1B # ''[32m''"
definition colorYellow :: string where "colorYellow = CHR 0x1B # ''[33m''"
definition colorBlue :: string where "colorBlue = CHR 0x1B # ''[34m''"
definition colorGray :: string where "colorGray = CHR 0x1B # ''[90m''"

definition TerminalHandler_Enabled :: "TerminalHandler \<Rightarrow> int \<Rightarrow> bool" where
  "TerminalHandler_Enabled h level = (optLevel (topts h) \<le> level)"

definition levelColor :: "int \<Rightarrow> string" where
  "levelColor level =
     (if LevelError \<le> level then colorRed
      else if level = LevelWarn then colorYellow
      else if level = LevelInfo then colorBlue
      else colorGray)"

definition TerminalHandler_Handle ::
  "TerminalHandler \<Rightarrow> Record \<Rightarrow> os \<Rightarrow> error option \<times> os" where
  "TerminalHandler_Handle h r w =
     (let buf = [Formatted False (topts h) [] r]
      in if colorize h
         then
           (case os_File_Write (out h) [Bytes (levelColor (rLevel r))] w of
              (_, w1) \<Rightarrow>
                (case os_File_Write (out h) buf w1 of
                   (err, w2) \<Rightarrow>
                     (case os_File_Write (out h) [Bytes colorReset] w2 of
                        (_, w3) \<Rightarrow> (err, w3))))
         else os_File_Write (out h) buf w)"

definition TerminalHandler_WithAttrs :: "TerminalHandler \<Rightarrow> Attr list \<Rightarrow> TerminalHandler" where
  "TerminalHandler_WithAttrs h attrs =
     \<lparr>out = out h, tinner = tinner h, topts = topts h, colorize = colorize h\<rparr>"

definition TerminalHandler_WithGroup :: "TerminalHandler \<Rightarrow> string \<Rightarrow> TerminalHandler" where
  "TerminalHandler_WithGroup h name =
     \<lparr>out = out h, tinner = tinner h, topts = topts h, colorize = colorize h\<rparr>"

section \<open>The fan-out dispatcher\<close>

text \<open>
  A member of a \<open>MultiHandler\<close> is a value of the interface \<open>slog.Handler\<close>: its methods,
  acting on the state \<open>'w\<close> they share. The loop of \<open>Handle\<close> carries the slice
  \<open>errs\<close> it appends to.
\<close>

record 'w sink =
  Enabled :: "int \<Rightarrow> 'w \<Rightarrow> bool"
  Handle :: "Record \<Rightarrow> 'w \<Rightarrow> error option \<times> 'w"

fun MultiHandler_Enabled :: "'w sink list \<Rightarrow> int \<Rightarrow> 'w \<Rightarrow> bool" where
  "MultiHandler_Enabled [] level w = False"
| "MultiHandler_Enabled (h # hs) level w =
     (if Enabled h level w then True else MultiHandler_Enabled hs level w)"

fun MultiHandler_Handle_loop ::
  "'w sink list \<Rightarrow> Record \<Rightarrow> error list \<Rightarrow> 'w \<Rightarrow> error list \<times> 'w" where
  "MultiHandler_Handle_loop [] r errs w = (errs, w)"
| "MultiHandler_Handle_loop (h # hs) r errs w =
     (if \<not> Enabled h (rLevel r) w then MultiHandler_Handle_loop hs r errs w
      else case Handle h r w of
             (Some err, w1) \<Rightarrow> MultiHandler_Handle_loop hs r (errs @ [err]) w1
           | (None, w1) \<Rightarrow> MultiHandler_Handle_loop hs r errs w1)"

definition MultiHandler_Handle :: "'w sink list \<Rightarrow> Record \<Rightarrow> 'w \<Rightarrow> error option \<times> 'w" where
  "MultiHandler_Handle hs r w =
     (case MultiHandler_Handle_loop hs r [] w of
        (errs, w1) \<Rightarrow> (if 0 < length errs then errors_Join errs else None, w1))"

text \<open>
  What the dispatcher is specified to do, said member by member: each member enabled for
  the record's level when its turn comes is handed the record, whatever the members
  before it returned, and its outcome is noted.
\<close>

fun deliver :: "'w sink list \<Rightarrow> Record \<Rightarrow> 'w \<Rightarrow> error option list \<times> 'w" where
  "deliver [] r w = ([], w)"
| "deliver (h # hs) r w =
     (if Enabled h (rLevel r) w
      then (case Handle h r w of
              (res, w1) \<Rightarrow> (case deliver hs r w1 of (rs, w2) \<Rightarrow> (res # rs, w2)))
      else deliver hs r w)"

definition failures :: "error option list \<Rightarrow> error list" where
  "failures rs = concat (map (\<lambda>res. case res of None \<Rightarrow> [] | Some err \<Rightarrow> [err]) rs)"

section \<open>The process: heap, handlers and the singleton\<close>

text \<open>
  A \<open>*DailyFileHandler\<close> is an index into \<open>heap\<close>, a \<open>*slog.Logger\<close> an index into
  \<open>loggers\<close>; the package variables \<open>loggerOnce\<close> (the done flag of the \<open>sync.Once\<close>),
  \<open>onceLogger\<close>, \<open>onceFileHandler\<close> and \<open>initErr\<close> and the default logger of
  \<open>log/slog\<close> are fields of the process state. The \<open>fileHandlerWrapper\<close> shares the
  sink it decorates through the pointer \<open>original\<close>.
\<close>

record fileHandlerWrapper =
  original :: nat
  inner :: slog_Handler

datatype Handler =
    FileSink nat
  | Wrapper fileHandlerWrapper
  | Terminal TerminalHandler
  | Multi "Handler list"

record proc =
  sys :: os
  heap :: "DailyFileHandler list"
  loggers :: "Handler list"
  loggerOnce :: bool
  onceLogger :: "nat option"
  onceFileHandler :: "nat option"
  initErr :: "error option"
  slog_default :: "nat option"

text \<open>A method called through a pointer that addresses nothing panics in Go; the model
  reports that panic as an error value and leaves the state alone.\<close>

definition nilDeref :: error where
  "nilDeref = Errorf ''invalid memory address or nil pointer dereference'' None"

definition Handle_at :: "nat \<Rightarrow> Record \<Rightarrow> proc \<Rightarrow> error option \<times> proc" where
  "Handle_at p r s =
     (if length (heap s) \<le> p then (Some nilDeref, s)
      else case DailyFileHandler_Handle (heap s ! p) r (sys s) of
             (err, h1, w1) \<Rightarrow> (err, s\<lparr>sys := w1, heap := (heap s)[p := h1]\<rparr>))"

definition Enabled_at :: "nat \<Rightarrow> int \<Rightarrow> proc \<Rightarrow> bool" where
  "Enabled_at p level s = (p < length (heap s) \<and> DailyFileHandler_Enabled (heap s ! p) level)"

text \<open>\<open>WithAttrs\<close> and \<open>WithGroup\<close> of the sink \<open>h\<close> that lives at address \<open>p\<close>.\<close>

definition DailyFileHandler_WithAttrs :: "nat \<Rightarrow> DailyFileHandler \<Rightarrow> Attr list \<Rightarrow> Handler" where
  "DailyFileHandler_WithAttrs p h attrs =
     (case curInner h of
        None \<Rightarrow> FileSink p
      | Some i \<Rightarrow> Wrapper \<lparr>original = p, inner = slog_WithAttrs i attrs\<rparr>)"

definition DailyFileHandler_WithGroup :: "nat \<Rightarrow> DailyFileHandler \<Rightarrow> string \<Rightarrow> Handler" where
  "DailyFileHandler_WithGroup p h name =
     (case curInner h of
        None \<Rightarrow> FileSink p
      | Some i \<Rightarrow> Wrapper \<lparr>original = p, inner = slog_WithGroup i name\<rparr>)"

definition fileHandlerWrapper_Handle ::
  "fileHandlerWrapper \<Rightarrow> Record \<Rightarrow> proc \<Rightarrow> error option \<times> proc" where
  "fileHandlerWrapper_Handle wr r s =
     (if length (heap s) \<le> original wr then (Some nilDeref, s)
      else case rotateIfNeeded (Time r) (heap s ! original wr) (sys s) of
             (Some err, h1, w1) \<Rightarrow>
               (Some err, s\<lparr>sys := w1, heap := (heap s)[original wr := h1]\<rparr>)
           | (None, h1, w1) \<Rightarrow>
               (case slog_Handle (inner wr) r w1 of
                  (err, w2) \<Rightarrow> (err, s\<lparr>sys := w2, heap := (heap s)[original wr := h1]\<rparr>)))"

primrec as_sink :: "Handler \<Rightarrow> proc sink" where
  "as_sink (FileSink p) = \<lparr>Enabled = Enabled_at p, Handle = Handle_at p\<rparr>"
| "as_sink (Wrapper wr) =
     \<lparr>Enabled = Enabled_at (original wr), Handle = fileHandlerWrapper_Handle wr\<rparr>"
| "as_sink (Terminal t) =
     \<lparr>Enabled = (\<lambda>level s. TerminalHandler_Enabled t level),
      Handle = (\<lambda>r s. case TerminalHandler_Handle t r (sys s) of
                         (err, w1) \<Rightarrow> (err, s\<lparr>sys := w1\<rparr>))\<rparr>"
| "as_sink (Multi hs) =
     \<lparr>Enabled = MultiHandler_Enabled (map as_sink hs),
      Handle = MultiHandler_Handle (map as_sink hs)\<rparr>"

text \<open>
  \<open>InitLogger\<close>. \<open>InitLogger_body\<close> is the function literal passed to \<open>loggerOnce.Do\<close>;
  \<open>Do\<close> runs it when the flag is not yet set and sets the flag, and every caller reads
  \<open>initErr\<close> and \<open>onceLogger\<close> after \<open>Do\<close> has returned. \<open>sync.Once\<close> makes callers
  that arrive during the first call wait for it, so calls take effect one after another.
\<close>

definition InitLogger_body :: "LogConfig \<Rightarrow> proc \<Rightarrow> proc" where
  "InitLogger_body c s =
     (case validate c of
        (Some err, c1) \<Rightarrow> s\<lparr>initErr := Some (Errorf ''invalid config: '' (Some err))\<rparr>
      | (None, c1) \<Rightarrow>
          (case (if Output c1 AND OutputFile \<noteq> 0
                 then (case NewFileHandler c1 (sys s) of
                         (Inl err, w1) \<Rightarrow>
                           Inl (s\<lparr>sys := w1,
                                  initErr := Some (Errorf ''create file handler failed: '' (Some err))\<rparr>)
                       | (Inr fileHandler, w1) \<Rightarrow>
                           Inr ([FileSink (length (heap s))],
                                s\<lparr>sys := w1, heap := heap s @ [fileHandler],
                                  onceFileHandler := Some (length (heap s))\<rparr>))
                 else Inr ([], s)) of
             Inl s1 \<Rightarrow> s1
           | Inr (handlers, s1) \<Rightarrow>
               (let handlers2 =
                      (if Output c1 AND OutputTerminal \<noteq> 0
                       then handlers @ [Terminal (NewTerminalHandler os_Stderr c1)]
                       else handlers)
                in if length handlers2 = 0
                   then s1\<lparr>initErr := Some (Errorf ''no output target specified'' None)\<rparr>
                   else
                     (let finalHandler =
                            (if length handlers2 = 1 then handlers2 ! 0 else Multi handlers2)
                      in s1\<lparr>loggers := loggers s1 @ [finalHandler],
                            onceLogger := Some (length (loggers s1)),
                            slog_default := Some (length (loggers s1))\<rparr>))))"

definition InitLogger :: "LogConfig \<Rightarrow> proc \<Rightarrow> (nat option \<times> error option) \<times> proc" where
  "InitLogger c s =
     (let s1 = (if loggerOnce s then s else (InitLogger_body c s)\<lparr>loggerOnce := True\<rparr>)
      in case initErr s1 of
           Some err \<Rightarrow> ((None, Some err), s1)
         | None \<Rightarrow> ((onceLogger s1, None), s1))"

text \<open>A run of calls to \<open>InitLogger\<close>, one per configuration, with what each caller got.\<close>

fun InitLogger_calls ::
  "LogConfig list \<Rightarrow> proc \<Rightarrow> (nat option \<times> error option) list \<times> proc" where
  "InitLogger_calls [] s = ([], s)"
| "InitLogger_calls (c # cs) s =
     (case InitLogger c s of
        (res, s1) \<Rightarrow> (case InitLogger_calls cs s1 of (rs, s2) \<Rightarrow> (res # rs, s2)))"

section \<open>States of the rotating file sink\<close>

text \<open>
  The sink is open for the day \<open>curDate\<close> when it holds an open file of that day's name
  in its directory and an encoder bound to that file.
\<close>

definition open_for_day :: "DailyFileHandler \<Rightarrow> os \<Rightarrow> bool" where
  "open_for_day h w =
     (case (curFile h, curInner h) of
        (Some f, Some i) \<Rightarrow>
          writer i = f \<and> f < length (files w) \<and> fopen (files w ! f)
          \<and> fdir (files w ! f) = Dir (cfg h)
          \<and> fname (files w ! f) = logFilename (cfg h) (curDate h)
      | _ \<Rightarrow> False)"

text \<open>The operating system lets the file \<open>n\<close> of directory \<open>d\<close> be opened or created.\<close>

definition can_open :: "os \<Rightarrow> string \<Rightarrow> string \<Rightarrow> bool" where
  "can_open w d n =
     (\<not> fails w (OpenFile d n)
      \<and> (case fs w d of None \<Rightarrow> False | Some es \<Rightarrow> map_of es n \<noteq> Some IsDir))"

text \<open>The encoder that \<open>rotateIfNeeded\<close> binds to a newly opened file.\<close>

definition encoder_for :: "LogConfig \<Rightarrow> nat \<Rightarrow> slog_Handler" where
  "encoder_for c f =
     \<lparr>isJSON = (Format c = LogFormatJSON), writer = f,
      hopts = \<lparr>optLevel = Level c, optAddSource = AddSource c\<rparr>, bound = []\<rparr>"

section \<open>A concrete process\<close>

text \<open>
  A configuration for both outputs, a machine whose log directory holds one older day
  file and a directory, and the sink as \<open>NewFileHandler\<close> leaves it on that machine at
  2024-01-01T23:59:00Z. File 2 is the standard error stream, file 3 the day file.
\<close>

definition ex_cfg :: LogConfig where
  "ex_cfg = \<lparr>Output = OutputBoth, Dir = ''./logs'', FilenamePrefix = ''app'', RetainDays = 30,
             Format = ''text'', Level = 0, AddSource = False\<rparr>"

definition ex_opts :: HandlerOptions where
  "ex_opts = \<lparr>optLevel = 0, optAddSource = False\<rparr>"

definition ex_std :: "os_File list" where
  "ex_std = [\<lparr>fdir = ''/dev'', fname = ''stdin'', fopen = True\<rparr>,
             \<lparr>fdir = ''/dev'', fname = ''stdout'', fopen = True\<rparr>,
             \<lparr>fdir = ''/dev'', fname = ''stderr'', fopen = True\<rparr>]"

definition ex_dev :: directory where
  "ex_dev = [(''stdin'', File []), (''stdout'', File []), (''stderr'', File [])]"

definition ex_boot :: os where
  "ex_boot =
     \<lparr>fs = Map.empty(''/dev'' \<mapsto> ex_dev,
                      ''./logs'' \<mapsto> [(''app-2023-11-30.log'', File [Bytes ''old'']),
                                     (''app-2020-01-01.log'', IsDir)]),
      files = ex_std, fails = (\<lambda>c. False), clock = 1704153540000000000\<rparr>"

definition ex_os :: os where
  "ex_os =
     \<lparr>fs = Map.empty(''/dev'' \<mapsto> ex_dev,
                      ''./logs'' \<mapsto> [(''app-2023-11-30.log'', File [Bytes ''old'']),
                                     (''app-2020-01-01.log'', IsDir),
                                     (''app-2024-01-01.log'', File [])]),
      files = ex_std @ [\<lparr>fdir = ''./logs'', fname = ''app-2024-01-01.log'', fopen = True\<rparr>],
      fails = (\<lambda>c. False), clock = 1704153540000000000\<rparr>"

definition ex_sink :: DailyFileHandler where
  "ex_sink =
     \<lparr>cfg = ex_cfg, curDate = ''2024-01-01'', curFile = Some 3,
      curInner = Some \<lparr>isJSON = False, writer = 3, hopts = ex_opts, bound = []\<rparr>,
      cleanTicker = Some Running, cleanDone = Some ChanOpen, closeOnce = False\<rparr>"

definition ex_rec1 :: Record where
  "ex_rec1 = \<lparr>Time = 1704153540000000000, Message = ''last minute'', rLevel = 0, Attrs = []\<rparr>"

definition ex_rec2 :: Record where
  "ex_rec2 = \<lparr>Time = 1704153660000000000, Message = ''first minute'', rLevel = 8, Attrs = []\<rparr>"

text \<open>The machine after the sink has written \<open>ex_rec1\<close> to the day file.\<close>

definition ex_os1 :: os where
  "ex_os1 = ex_os\<lparr>fs := fs_append ''./logs'' ''app-2024-01-01.log''
                           [Formatted False ex_opts [] ex_rec1] (fs ex_os)\<rparr>"

text \<open>The sink and the machine after \<open>Close\<close>; the process after \<open>InitLogger\<close> has built
  both sinks; the wrapper that \<open>WithAttrs\<close> returns for the open sink at address 0.\<close>

definition ex_closed :: DailyFileHandler where
  "ex_closed = ex_sink\<lparr>cleanTicker := Some Stopped, closeOnce := True, cleanDone := Some ChanClosed,
                       curFile := None, curInner := None\<rparr>"

definition ex_os_closed :: os where
  "ex_os_closed =
     ex_os\<lparr>files := ex_std @ [\<lparr>fdir = ''./logs'', fname = ''app-2024-01-01.log'', fopen = False\<rparr>]\<rparr>"

definition ex_boot_proc :: proc where
  "ex_boot_proc =
     \<lparr>sys = ex_boot, heap = [], loggers = [], loggerOnce = False, onceLogger = None,
      onceFileHandler = None, initErr = None, slog_default = None\<rparr>"

definition ex_proc :: proc where
  "ex_proc =
     \<lparr>sys = ex_os, heap = [ex_sink],
      loggers = [Multi [FileSink 0, Terminal (NewTerminalHandler os_Stderr ex_cfg)]],
      loggerOnce = True, onceLogger = Some 0, onceFileHandler = Some 0, initErr = None,
      slog_default = Some 0\<rparr>"

definition ex_attrs :: "Attr list" where
  "ex_attrs = [Attr ''service'' ''api'']"

definition ex_wrapper :: fileHandlerWrapper where
  "ex_wrapper =
     \<lparr>original = 0,
      inner = \<lparr>isJSON = False, writer = 3, hopts = ex_opts, bound = [BoundAttrs ex_attrs]\<rparr>\<rparr>"

text \<open>A configuration for file output that leaves everything else blank.\<close>

definition ex_blank :: LogConfig where
  "ex_blank = \<lparr>Output = OutputFile, Dir = [], FilenamePrefix = [], RetainDays = 0,
               Format = [], Level = 0, AddSource = False\<rparr>"

text \<open>The process after the wrapper has rotated the sink to 2024-01-02; the terminal sink
  that \<open>InitLogger\<close> builds.\<close>

definition ex_rotated :: proc where
  "ex_rotated =
     ex_proc\<lparr>sys := ex_os\<lparr>fs := (fs ex_os)(''./logs'' \<mapsto>
                 AList.update ''app-2024-01-02.log'' (File []) (the (fs ex_os ''./logs''))),
            files := files ex_os_closed
                     @ [\<lparr>fdir = ''./logs'', fname = ''app-2024-01-02.log'', fopen = True\<rparr>]\<rparr>,
              heap := [ex_sink\<lparr>curFile := Some 4,
               curInner := Some \<lparr>isJSON = False, writer = 4, hopts = ex_opts, bound = []\<rparr>,
               curDate := ''2024-01-02''\<rparr>]\<rparr>"

definition ex_terminal :: TerminalHandler where
  "ex_terminal = NewTerminalHandler os_Stderr ex_cfg"



section \<open>Lemmas on the operating system\<close>

lemma content_fs_append:
  "content (w\<lparr>fs := fs_append d n b (fs w)\<rparr>) d' n' =
     (if d' = d \<and> n' = n then map_option (\<lambda>c. c @ b) (content w d n) else content w d' n')"
  by (auto simp: content_def fs_append_def update_conv' split: option.splits entry.splits if_splits)

lemma OpenFile_ok:
  assumes "can_open w d n"
  shows "\<exists>w1. os_OpenFile d n w = (Inr (length (files w)), w1)
           \<and> files w1 = files w @ [\<lparr>fdir = d, fname = n, fopen = True\<rparr>]
           \<and> fails w1 = fails w \<and> clock w1 = clock w
           \<and> (\<forall>d' n'. content w1 d' n' =
                 (if d' = d \<and> n' = n then Some (case content w d n of None \<Rightarrow> [] | Some c \<Rightarrow> c)
                  else content w d' n'))"
  using assms
  by (auto simp: can_open_def os_OpenFile_def content_def update_conv' split: option.splits entry.splits)

lemma can_open_files [simp]: "can_open (w\<lparr>files := fl\<rparr>) d n = can_open w d n"
  by (simp add: can_open_def)

lemma content_files [simp]: "content (w\<lparr>files := fl\<rparr>) d n = content w d n"
  by (simp add: content_def)

lemma Close_clock: "os_File_Close f (w\<lparr>clock := c\<rparr>) =
    (case os_File_Close f w of (e, w1) \<Rightarrow> (e, w1\<lparr>clock := c\<rparr>))"
  by (simp add: os_File_Close_def)

lemma Open_clock: "os_OpenFile d n (w\<lparr>clock := c\<rparr>) =
    (case os_OpenFile d n w of (e, w1) \<Rightarrow> (e, w1\<lparr>clock := c\<rparr>))"
  by (simp add: os_OpenFile_def split: option.splits entry.splits)

lemma Write_clock: "os_File_Write f b (w\<lparr>clock := c\<rparr>) =
    (case os_File_Write f b w of (e, w1) \<Rightarrow> (e, w1\<lparr>clock := c\<rparr>))"
  by (simp add: os_File_Write_def)

section \<open>Rotation\<close>

lemma encoder_for_eq:
  "(if Format c = LogFormatJSON
    then slog_NewJSONHandler f \<lparr>optLevel = Level c, optAddSource = AddSource c\<rparr>
    else slog_NewTextHandler f \<lparr>optLevel = Level c, optAddSource = AddSource c\<rparr>) = encoder_for c f"
  by (simp add: encoder_for_def slog_NewJSONHandler_def slog_NewTextHandler_def)

lemma rotate_same_day:
  "time_Format_date t = curDate h \<Longrightarrow> curInner h \<noteq> None \<Longrightarrow> rotateIfNeeded t h w = (None, h, w)"
  by (simp add: rotateIfNeeded_def)

lemma Handle_same_day:
  assumes "open_for_day h w" "time_Format_date (Time r) = curDate h"
  shows "DailyFileHandler_Handle h r w =
     (None, h, w\<lparr>fs := fs_append (Dir (cfg h)) (logFilename (cfg h) (curDate h))
                        [Formatted (isJSON (the (curInner h))) (hopts (the (curInner h))) (bound (the (curInner h))) r] (fs w)\<rparr>)"
  using assms
  by (auto simp: open_for_day_def DailyFileHandler_Handle_def rotateIfNeeded_def slog_Handle_def os_File_Write_def
      split: option.splits)

lemma rotate_new_day:
  assumes inv: "open_for_day h w"
    and day: "time_Format_date t \<noteq> curDate h"
    and opn: "can_open w (Dir (cfg h)) (logFilename (cfg h) (time_Format_date t))"
    and f: "curFile h = Some f"
  shows "\<exists>w1. rotateIfNeeded t h w =
           (None,
            h\<lparr>curFile := Some (length (files w)),
              curInner := Some (encoder_for (cfg h) (length (files w))),
              curDate := time_Format_date t\<rparr>, w1)
         \<and> files w1 = (files w)[f := (files w ! f)\<lparr>fopen := False\<rparr>]
                       @ [\<lparr>fdir = Dir (cfg h), fname = logFilename (cfg h) (time_Format_date t), fopen = True\<rparr>]
         \<and> fails w1 = fails w \<and> clock w1 = clock w
         \<and> (\<forall>d' n'. content w1 d' n' =
               (if d' = Dir (cfg h) \<and> n' = logFilename (cfg h) (time_Format_date t)
                then Some (case content w d' n' of None \<Rightarrow> [] | Some c \<Rightarrow> c)
                else content w d' n'))"
proof -
  let ?wc = "w\<lparr>files := (files w)[f := (files w ! f)\<lparr>fopen := False\<rparr>]\<rparr>"
  let ?d = "Dir (cfg h)" and ?n = "logFilename (cfg h) (time_Format_date t)"
  from inv f have fo: "f < length (files w)" "fopen (files w ! f)"
    by (auto simp: open_for_day_def split: option.splits)
  then have cl: "os_File_Close f w = (None, ?wc)"
    by (simp add: os_File_Close_def)
  from opn have "can_open ?wc ?d ?n" by simp
  from OpenFile_ok [OF this] obtain w1 where
    o: "os_OpenFile ?d ?n ?wc = (Inr (length (files ?wc)), w1)"
    and fl: "files w1 = files ?wc @ [\<lparr>fdir = ?d, fname = ?n, fopen = True\<rparr>]"
    and rest: "fails w1 = fails ?wc" "clock w1 = clock ?wc"
    and ct: "\<forall>d' n'. content w1 d' n' =
                 (if d' = ?d \<and> n' = ?n then Some (case content ?wc ?d ?n of None \<Rightarrow> [] | Some c \<Rightarrow> c)
                  else content ?wc d' n')"
    by blast
  have "rotateIfNeeded t h w =
           (None,
            h\<lparr>curFile := Some (length (files w)),
              curInner := Some (encoder_for (cfg h) (length (files w))),
              curDate := time_Format_date t\<rparr>, w1)"
    using day f cl o by (simp add: rotateIfNeeded_def Let_def encoder_for_eq)
  then show ?thesis using fl rest ct by auto
qed

lemma Handle_new_day:
  assumes inv: "open_for_day h w"
    and day: "time_Format_date (Time r) \<noteq> curDate h"
    and opn: "can_open w (Dir (cfg h)) (logFilename (cfg h) (time_Format_date (Time r)))"
    and f: "curFile h = Some f"
  shows "\<exists>w2. DailyFileHandler_Handle h r w =
           (None,
            h\<lparr>curFile := Some (length (files w)),
              curInner := Some (encoder_for (cfg h) (length (files w))),
              curDate := time_Format_date (Time r)\<rparr>, w2)
         \<and> files w2 = (files w)[f := (files w ! f)\<lparr>fopen := False\<rparr>]
                       @ [\<lparr>fdir = Dir (cfg h), fname = logFilename (cfg h) (time_Format_date (Time r)), fopen = True\<rparr>]
         \<and> (\<forall>d' n'. content w2 d' n' =
               (if d' = Dir (cfg h) \<and> n' = logFilename (cfg h) (time_Format_date (Time r))
                then Some ((case content w d' n' of None \<Rightarrow> [] | Some c \<Rightarrow> c)
                           @ [Formatted (Format (cfg h) = LogFormatJSON)
                                \<lparr>optLevel = Level (cfg h), optAddSource = AddSource (cfg h)\<rparr> [] r])
                else content w d' n'))"
proof -
  let ?d = "Dir (cfg h)" and ?n = "logFilename (cfg h) (time_Format_date (Time r))"
  let ?h1 = "h\<lparr>curFile := Some (length (files w)),
              curInner := Some (encoder_for (cfg h) (length (files w))),
              curDate := time_Format_date (Time r)\<rparr>"
  let ?b = "[Formatted (Format (cfg h) = LogFormatJSON)
                                \<lparr>optLevel = Level (cfg h), optAddSource = AddSource (cfg h)\<rparr> [] r]"
  from rotate_new_day [OF inv day opn f] obtain w1 where
    rot: "rotateIfNeeded (Time r) h w = (None, ?h1, w1)"
    and fl: "files w1 = (files w)[f := (files w ! f)\<lparr>fopen := False\<rparr>] @ [\<lparr>fdir = ?d, fname = ?n, fopen = True\<rparr>]"
    and ct: "\<forall>d' n'. content w1 d' n' =
               (if d' = ?d \<and> n' = ?n then Some (case content w d' n' of None \<Rightarrow> [] | Some c \<Rightarrow> c)
                else content w d' n')"
    by blast
  have len: "length (files w) < length (files w1)" and
    nth: "files w1 ! length (files w) = \<lparr>fdir = ?d, fname = ?n, fopen = True\<rparr>"
    using fl by (simp_all add: nth_append)
  have wr: "slog_Handle (encoder_for (cfg h) (length (files w))) r w1 =
      (None, w1\<lparr>fs := fs_append ?d ?n ?b (fs w1)\<rparr>)"
    using len nth by (simp add: slog_Handle_def os_File_Write_def encoder_for_def)
  have "DailyFileHandler_Handle h r w = (None, ?h1, w1\<lparr>fs := fs_append ?d ?n ?b (fs w1)\<rparr>)"
    using rot wr by (simp add: DailyFileHandler_Handle_def)
  moreover have "files (w1\<lparr>fs := fs_append ?d ?n ?b (fs w1)\<rparr>) =
      (files w)[f := (files w ! f)\<lparr>fopen := False\<rparr>] @ [\<lparr>fdir = ?d, fname = ?n, fopen = True\<rparr>]"
    using fl by simp
  moreover have "\<forall>d' n'. content (w1\<lparr>fs := fs_append ?d ?n ?b (fs w1)\<rparr>) d' n' =
               (if d' = ?d \<and> n' = ?n
                then Some ((case content w d' n' of None \<Rightarrow> [] | Some c \<Rightarrow> c) @ ?b)
                else content w d' n')"
    using ct by (simp add: content_fs_append)
  ultimately show ?thesis by blast
qed

lemma rotate_clock: "rotateIfNeeded t h (w\<lparr>clock := c\<rparr>) =
    (case rotateIfNeeded t h w of (e, h1, w1) \<Rightarrow> (e, h1, w1\<lparr>clock := c\<rparr>))"
  by (auto simp: rotateIfNeeded_def Let_def Close_clock Open_clock split: option.splits prod.splits sum.splits)

lemma Handle_clock: "DailyFileHandler_Handle h r (w\<lparr>clock := c\<rparr>) =
    (case DailyFileHandler_Handle h r w of (e, h1, w1) \<Rightarrow> (e, h1, w1\<lparr>clock := c\<rparr>))"
  by (auto simp: DailyFileHandler_Handle_def rotate_clock slog_Handle_def Write_clock split: option.splits prod.splits)

section \<open>Close\<close>

lemma Close_done: "DailyFileHandler_Close h w = (res, h1, w1) \<Longrightarrow> closeOnce h1"
  by (auto simp: DailyFileHandler_Close_def Let_def split: if_splits option.splits prod.splits)

lemma Close_again: "closeOnce h \<Longrightarrow> DailyFileHandler_Close h w = (Inr None, h, w)"
  by (simp add: DailyFileHandler_Close_def)

lemma Close_funpow:
  "closeOnce h \<Longrightarrow> ((\<lambda>s. snd (DailyFileHandler_Close (fst s) (snd s))) ^^ n) (h, w) = (h, w)"
  by (induction n) (simp_all add: Close_again)

lemma Close_first:
  assumes "\<not> closeOnce h" "cleanTicker h = Some Running" "cleanDone h = Some ChanOpen"
    "curFile h = Some f" "f < length (files w)" "fopen (files w ! f)"
  shows "DailyFileHandler_Close h w =
      (Inr None,
       h\<lparr>cleanTicker := Some Stopped, closeOnce := True, cleanDone := Some ChanClosed, curFile := None, curInner := None\<rparr>,
       w\<lparr>files := (files w)[f := (files w ! f)\<lparr>fopen := False\<rparr>]\<rparr>)"
  using assms by (simp add: DailyFileHandler_Close_def os_File_Close_def Let_def)

section \<open>The concrete process\<close>

lemma day_of_rec1: "time_Format_date 1704153540000000000 = ''2024-01-01''"
  by code_simp

lemma day_of_rec2: "time_Format_date 1704153660000000000 = ''2024-01-02''"
  by code_simp

lemma ex_new: "NewFileHandler ex_cfg ex_boot = (Inr ex_sink, ex_os)"
  by (simp add: NewFileHandler_def os_MkdirAll_def ex_cfg_def ex_boot_def rotateIfNeeded_def time_Now_def
     day_of_rec1 os_OpenFile_def logFilename_def ex_sink_def ex_os_def Let_def slog_NewTextHandler_def
     LogFormatJSON_def ex_opts_def ex_std_def)

lemma ex_open: "open_for_day ex_sink ex_os"
  by (simp add: open_for_day_def ex_sink_def ex_os_def ex_std_def ex_cfg_def logFilename_def)

lemma ex_f: "curFile ex_sink = Some 3" by (simp add: ex_sink_def)
lemma ex_i: "curInner ex_sink = Some \<lparr>isJSON = False, writer = 3, hopts = ex_opts, bound = []\<rparr>" by (simp add: ex_sink_def)
lemma ex_open1: "open_for_day ex_sink ex_os1"
  by (simp add: open_for_day_def ex_sink_def ex_os1_def ex_os_def ex_std_def ex_cfg_def logFilename_def)

lemma ex_can_open2: "can_open ex_os1 ''./logs'' ''app-2024-01-02.log''"
  by (simp add: can_open_def ex_os1_def ex_os_def fs_append_def)

lemma ex_sink_simps: "Dir (cfg ex_sink) = ''./logs''" "curDate ex_sink = ''2024-01-01''"
  "logFilename (cfg ex_sink) d = ''app-'' @ d @ ''.log''" "Format (cfg ex_sink) = ''text''"
  "Level (cfg ex_sink) = 0" "AddSource (cfg ex_sink) = False"
  by (simp_all add: ex_sink_def ex_cfg_def logFilename_def)

lemma ex_content1: "content ex_os1 ''./logs'' ''app-2024-01-01.log'' = Some [Formatted False ex_opts [] ex_rec1]"
  "content ex_os1 ''./logs'' ''app-2024-01-02.log'' = None"
  by (simp_all add: content_def ex_os1_def ex_os_def fs_append_def)

section \<open>Claims on the rotating file sink\<close>

text \<open>
  C4. For a sink that is open for a day and any record \<open>r\<close>, the file written is
  decided by the day of \<open>r\<close>'s own timestamp. When that day is the day the sink is open
  for, nothing is closed or opened and the encoded record is appended to the current
  file. When it is another day and the operating system lets the file of that day be
  opened, the old handle is closed, the file \<open>{prefix}-{day of r}.log\<close> is opened
  (created empty when absent, its earlier content kept otherwise), the encoded record is
  appended to it, and every other file keeps its content. The clock is never consulted:
  changing what \<open>time.Now()\<close> returns changes nothing else in the outcome.
\<close>

theorem Handle_day_file_of_record:
  assumes inv: "open_for_day h w"
    and f: "curFile h = Some f"
    and i: "curInner h = Some i"
  shows "(time_Format_date (Time r) = curDate h \<longrightarrow>
            DailyFileHandler_Handle h r w =
              (None, h,
               w\<lparr>fs := fs_append (Dir (cfg h)) (logFilename (cfg h) (curDate h))
                           [Formatted (isJSON i) (hopts i) (bound i) r] (fs w)\<rparr>))
       \<and> (time_Format_date (Time r) \<noteq> curDate h
            \<and> can_open w (Dir (cfg h)) (logFilename (cfg h) (time_Format_date (Time r))) \<longrightarrow>
            (\<exists>w2. DailyFileHandler_Handle h r w =
                     (None,
                      h\<lparr>curFile := Some (length (files w)),
                        curInner := Some (encoder_for (cfg h) (length (files w))),
                        curDate := time_Format_date (Time r)\<rparr>, w2)
                 \<and> files w2 =
                     (files w)[f := (files w ! f)\<lparr>fopen := False\<rparr>]
                     @ [\<lparr>fdir = Dir (cfg h),
                         fname = logFilename (cfg h) (time_Format_date (Time r)), fopen = True\<rparr>]
                 \<and> (\<forall>d n. content w2 d n =
                       (if d = Dir (cfg h) \<and> n = logFilename (cfg h) (time_Format_date (Time r))
                        then Some ((case content w d n of None \<Rightarrow> [] | Some c \<Rightarrow> c)
                                   @ [Formatted (Format (cfg h) = LogFormatJSON)
                                        \<lparr>optLevel = Level (cfg h), optAddSource = AddSource (cfg h)\<rparr>
                                        [] r])
                        else content w d n))))
       \<and> DailyFileHandler_Handle h r (w\<lparr>clock := c\<rparr>) =
           (case DailyFileHandler_Handle h r w of (e, h1, w1) \<Rightarrow> (e, h1, w1\<lparr>clock := c\<rparr>))"
proof (intro conjI impI)
  assume "time_Format_date (Time r) = curDate h"
  from Handle_same_day [OF inv this] i
  show "DailyFileHandler_Handle h r w =
              (None, h,
               w\<lparr>fs := fs_append (Dir (cfg h)) (logFilename (cfg h) (curDate h))
                           [Formatted (isJSON i) (hopts i) (bound i) r] (fs w)\<rparr>)"
    by simp
next
  assume a: "time_Format_date (Time r) \<noteq> curDate h
            \<and> can_open w (Dir (cfg h)) (logFilename (cfg h) (time_Format_date (Time r)))"
  then have d: "time_Format_date (Time r) \<noteq> curDate h"
    and o: "can_open w (Dir (cfg h)) (logFilename (cfg h) (time_Format_date (Time r)))"
    by simp_all
  show "\<exists>w2. DailyFileHandler_Handle h r w =
                     (None,
                      h\<lparr>curFile := Some (length (files w)),
                        curInner := Some (encoder_for (cfg h) (length (files w))),
                        curDate := time_Format_date (Time r)\<rparr>, w2)
                 \<and> files w2 =
                     (files w)[f := (files w ! f)\<lparr>fopen := False\<rparr>]
                     @ [\<lparr>fdir = Dir (cfg h),
                         fname = logFilename (cfg h) (time_Format_date (Time r)), fopen = True\<rparr>]
                 \<and> (\<forall>d n. content w2 d n =
                       (if d = Dir (cfg h) \<and> n = logFilename (cfg h) (time_Format_date (Time r))
                        then Some ((case content w d n of None \<Rightarrow> [] | Some c \<Rightarrow> c)
                                   @ [Formatted (Format (cfg h) = LogFormatJSON)
                                        \<lparr>optLevel = Level (cfg h), optAddSource = AddSource (cfg h)\<rparr>
                                        [] r])
                        else content w d n))"
    by (rule Handle_new_day [OF inv d o f])
next
  show "DailyFileHandler_Handle h r (w\<lparr>clock := c\<rparr>) =
           (case DailyFileHandler_Handle h r w of (e, h1, w1) \<Rightarrow> (e, h1, w1\<lparr>clock := c\<rparr>))"
    by (rule Handle_clock)
qed

theorem Handle_day_file_of_record_witness:
  "open_for_day ex_sink ex_os
   \<and> DailyFileHandler_Handle ex_sink ex_rec1 ex_os = (None, ex_sink, ex_os1)
   \<and> open_for_day ex_sink ex_os1
   \<and> time_Format_date (Time ex_rec2) \<noteq> curDate ex_sink
   \<and> can_open ex_os1 ''./logs'' ''app-2024-01-02.log''
   \<and> (\<exists>h2 w2. DailyFileHandler_Handle ex_sink ex_rec2 ex_os1 = (None, h2, w2)
        \<and> curDate h2 = ''2024-01-02''
        \<and> \<not> fopen (files w2 ! 3)
        \<and> content w2 ''./logs'' ''app-2024-01-01.log'' = Some [Formatted False ex_opts [] ex_rec1]
        \<and> content w2 ''./logs'' ''app-2024-01-02.log'' = Some [Formatted False ex_opts [] ex_rec2])"
proof -
  have d1: "time_Format_date (Time ex_rec1) = curDate ex_sink"
    by (simp add: ex_rec1_def day_of_rec1 ex_sink_simps)
  have d2: "time_Format_date (Time ex_rec2) = ''2024-01-02''"
    by (simp add: ex_rec2_def day_of_rec2)
  from Handle_day_file_of_record [OF ex_open ex_f ex_i, of ex_rec1 0] d1
  have s1: "DailyFileHandler_Handle ex_sink ex_rec1 ex_os = (None, ex_sink, ex_os1)"
    by (simp add: ex_os1_def ex_sink_simps)
  let ?day = "time_Format_date (Time ex_rec2)"
  have d2': "?day \<noteq> curDate ex_sink
      \<and> can_open ex_os1 (Dir (cfg ex_sink)) (logFilename (cfg ex_sink) ?day)"
    using d2 ex_can_open2 by (simp add: ex_sink_simps)
  from Handle_day_file_of_record [OF ex_open1 ex_f ex_i, of ex_rec2 0, THEN conjunct2, THEN conjunct1,
      THEN mp, OF d2']
  obtain w2 where
    h: "DailyFileHandler_Handle ex_sink ex_rec2 ex_os1 =
          (None, ex_sink\<lparr>curFile := Some (length (files ex_os1)),
                 curInner := Some (encoder_for (cfg ex_sink) (length (files ex_os1))),
                 curDate := ?day\<rparr>, w2)"
    and fl: "files w2 = (files ex_os1)[3 := (files ex_os1 ! 3)\<lparr>fopen := False\<rparr>]
                     @ [\<lparr>fdir = Dir (cfg ex_sink), fname = logFilename (cfg ex_sink) ?day, fopen = True\<rparr>]"
    and ct: "\<And>d n. content w2 d n =
                       (if d = Dir (cfg ex_sink) \<and> n = logFilename (cfg ex_sink) ?day
                        then Some ((case content ex_os1 d n of None \<Rightarrow> [] | Some c \<Rightarrow> c)
                                   @ [Formatted (Format (cfg ex_sink) = LogFormatJSON)
                                        \<lparr>optLevel = Level (cfg ex_sink), optAddSource = AddSource (cfg ex_sink)\<rparr>
                                        [] ex_rec2])
                        else content ex_os1 d n)"
    by blast
  have c3: "\<not> fopen (files w2 ! 3)"
    using fl by (simp add: ex_os1_def ex_os_def ex_std_def nth_append)
  have c1: "content w2 ''./logs'' ''app-2024-01-01.log'' = Some [Formatted False ex_opts [] ex_rec1]"
    by (simp add: ct ex_sink_simps d2 ex_content1)
  have c2: "content w2 ''./logs'' ''app-2024-01-02.log'' = Some [Formatted False ex_opts [] ex_rec2]"
    by (simp add: ct ex_sink_simps d2 ex_content1 LogFormatJSON_def ex_opts_def)
  show ?thesis
    using ex_open s1 ex_open1 d2 ex_can_open2 h c3 c1 c2
    by (simp add: ex_sink_simps)
qed

lemma NewFileHandler_open:
  assumes "NewFileHandler c w = (Inr h, w1)"
  shows "open_for_day h w1 \<and> \<not> closeOnce h \<and> cleanTicker h = Some Running
         \<and> cleanDone h = Some ChanOpen \<and> cfg h = c \<and> curDate h = time_Format_date (clock w)"
  using assms
  by (auto simp: NewFileHandler_def rotateIfNeeded_def os_MkdirAll_def os_OpenFile_def Let_def
      open_for_day_def time_Now_def slog_NewJSONHandler_def slog_NewTextHandler_def
      split: if_splits option.splits entry.splits prod.splits sum.splits)

text \<open>
  C8. \<open>Close\<close> is idempotent. Whatever the first call returned, it leaves the
  \<open>sync.Once\<close> done, and every later call, any number of them, changes neither the sink
  nor the operating system and returns the nil error: nothing is stopped, signalled or
  released a second time. A call on a sink whose \<open>Once\<close> is already done is such a later
  call. The first call on a sink with a running ticker, an open channel and an open file
  stops the ticker, closes the channel, closes the file and clears the handle and the
  encoder, and returns the nil error without a panic.
\<close>

theorem Close_idempotent:
  assumes "DailyFileHandler_Close h w = (res, h1, w1)"
  shows "closeOnce h1
       \<and> DailyFileHandler_Close h1 w1 = (Inr None, h1, w1)
       \<and> ((\<lambda>s. snd (DailyFileHandler_Close (fst s) (snd s))) ^^ n) (h1, w1) = (h1, w1)
       \<and> (closeOnce h \<longrightarrow> res = Inr None \<and> h1 = h \<and> w1 = w)
       \<and> (\<not> closeOnce h \<and> cleanTicker h = Some Running \<and> cleanDone h = Some ChanOpen
            \<and> curFile h = Some f \<and> f < length (files w) \<and> fopen (files w ! f) \<longrightarrow>
            res = Inr None
            \<and> h1 = h\<lparr>cleanTicker := Some Stopped, closeOnce := True, cleanDone := Some ChanClosed,
                     curFile := None, curInner := None\<rparr>
            \<and> w1 = w\<lparr>files := (files w)[f := (files w ! f)\<lparr>fopen := False\<rparr>]\<rparr>)"
proof -
  have d: "closeOnce h1" using assms by (rule Close_done)
  have "closeOnce h \<longrightarrow> res = Inr None \<and> h1 = h \<and> w1 = w"
    using assms by (auto simp: Close_again)
  moreover have "\<not> closeOnce h \<and> cleanTicker h = Some Running \<and> cleanDone h = Some ChanOpen
            \<and> curFile h = Some f \<and> f < length (files w) \<and> fopen (files w ! f) \<longrightarrow>
            res = Inr None
            \<and> h1 = h\<lparr>cleanTicker := Some Stopped, closeOnce := True, cleanDone := Some ChanClosed,
                     curFile := None, curInner := None\<rparr>
            \<and> w1 = w\<lparr>files := (files w)[f := (files w ! f)\<lparr>fopen := False\<rparr>]\<rparr>"
    using assms by (auto simp: Close_first)
  ultimately show ?thesis
    using d by (simp add: Close_again Close_funpow)
qed

lemma ex_Close: "DailyFileHandler_Close ex_sink ex_os = (Inr None, ex_closed, ex_os_closed)"
  by (simp add: DailyFileHandler_Close_def ex_sink_def ex_closed_def ex_os_def ex_os_closed_def
      ex_std_def os_File_Close_def Let_def)

theorem Close_idempotent_witness:
  "DailyFileHandler_Close ex_sink ex_os = (Inr None, ex_closed, ex_os_closed)
   \<and> closeOnce ex_closed
   \<and> DailyFileHandler_Close ex_closed ex_os_closed = (Inr None, ex_closed, ex_os_closed)
   \<and> ((\<lambda>s. snd (DailyFileHandler_Close (fst s) (snd s))) ^^ 3) (ex_closed, ex_os_closed)
       = (ex_closed, ex_os_closed)
   \<and> curFile ex_closed = None \<and> cleanTicker ex_closed = Some Stopped
   \<and> cleanDone ex_closed = Some ChanClosed \<and> \<not> fopen (files ex_os_closed ! 3)"
  using Close_idempotent [OF ex_Close, of 3 3] ex_Close
  by (simp add: ex_closed_def ex_os_closed_def ex_std_def)

text \<open>
  The error "file handler not initialized" is never returned: whenever \<open>rotateIfNeeded\<close>
  returns nil it has just bound an encoder, or found one bound.
\<close>

lemma Handle_never_uninitialized:
  "fst (DailyFileHandler_Handle h r w) \<noteq> Some (Errorf ''file handler not initialized'' None)"
  by (auto simp: DailyFileHandler_Handle_def rotateIfNeeded_def Let_def slog_Handle_def os_File_Write_def
      split: if_splits option.splits prod.splits sum.splits)

lemma ex_Handle_closed:
  "DailyFileHandler_Handle ex_closed ex_rec1 ex_os_closed =
       (None,
        ex_closed\<lparr>curFile := Some 4,
                  curInner := Some \<lparr>isJSON = False, writer = 4, hopts = ex_opts, bound = []\<rparr>\<rparr>,
        ex_os_closed
          \<lparr>fs := fs_append ''./logs'' ''app-2024-01-01.log'' [Formatted False ex_opts [] ex_rec1] (fs ex_os),
           files := files ex_os_closed @ [\<lparr>fdir = ''./logs'', fname = ''app-2024-01-01.log'', fopen = True\<rparr>]\<rparr>)"
  by (simp add: DailyFileHandler_Handle_def rotateIfNeeded_def ex_rec1_def day_of_rec1
      ex_closed_def ex_sink_def ex_cfg_def logFilename_def os_OpenFile_def ex_os_closed_def ex_os_def
      ex_std_def Let_def slog_NewTextHandler_def LogFormatJSON_def slog_Handle_def os_File_Write_def
      ex_opts_def)

text \<open>
  C5 (the code departs from it). After \<open>Close\<close>, \<open>Handle\<close> is claimed to fail with the
  uninitialized-sink error. On the sink closed above, a record of the same day makes
  \<open>rotateIfNeeded\<close> find no encoder, open the day file again under a new handle
  (file 4) and bind a new encoder; \<open>Handle\<close> then returns nil and the record is
  appended to the day file.
\<close>

theorem Handle_after_Close_reopens:
  "DailyFileHandler_Close ex_sink ex_os = (Inr None, ex_closed, ex_os_closed)
   \<and> DailyFileHandler_Handle ex_closed ex_rec1 ex_os_closed =
       (None,
        ex_closed\<lparr>curFile := Some 4,
                  curInner := Some \<lparr>isJSON = False, writer = 4, hopts = ex_opts, bound = []\<rparr>\<rparr>,
        ex_os_closed
          \<lparr>fs := fs_append ''./logs'' ''app-2024-01-01.log'' [Formatted False ex_opts [] ex_rec1] (fs ex_os),
           files := files ex_os_closed @ [\<lparr>fdir = ''./logs'', fname = ''app-2024-01-01.log'', fopen = True\<rparr>]\<rparr>)
   \<and> content (ex_os_closed
          \<lparr>fs := fs_append ''./logs'' ''app-2024-01-01.log'' [Formatted False ex_opts [] ex_rec1] (fs ex_os),
           files := files ex_os_closed @ [\<lparr>fdir = ''./logs'', fname = ''app-2024-01-01.log'', fopen = True\<rparr>]\<rparr>)
          ''./logs'' ''app-2024-01-01.log'' = Some [Formatted False ex_opts [] ex_rec1]"
proof -
  have "content (ex_os_closed
          \<lparr>fs := fs_append ''./logs'' ''app-2024-01-01.log'' [Formatted False ex_opts [] ex_rec1] (fs ex_os),
           files := files ex_os_closed @ [\<lparr>fdir = ''./logs'', fname = ''app-2024-01-01.log'', fopen = True\<rparr>]\<rparr>)
          ''./logs'' ''app-2024-01-01.log'' = Some [Formatted False ex_opts [] ex_rec1]"
    by (simp add: content_def fs_append_def ex_os_def)
  then show ?thesis
    using ex_Close ex_Handle_closed by simp
qed

section \<open>Claims on the decorated file sink\<close>

text \<open>
  What the wrapper does with a record of another day, for any open sink and any
  attributes: the rotation happens, and the write goes through the encoder bound to the
  file that the rotation has just closed.
\<close>

lemma wrapper_stale_after_rotation:
  assumes p: "p < length (heap s)" "heap s ! p = h"
    and inv: "open_for_day h (sys s)"
    and f: "curFile h = Some f" and i: "curInner h = Some i"
    and day: "time_Format_date (Time r) \<noteq> curDate h"
    and opn: "can_open (sys s) (Dir (cfg h)) (logFilename (cfg h) (time_Format_date (Time r)))"
  shows "DailyFileHandler_WithAttrs p h attrs = Wrapper \<lparr>original = p, inner = slog_WithAttrs i attrs\<rparr>
     \<and> fst (fileHandlerWrapper_Handle \<lparr>original = p, inner = slog_WithAttrs i attrs\<rparr> r s) = Some ErrClosed
     \<and> content (sys (snd (fileHandlerWrapper_Handle \<lparr>original = p, inner = slog_WithAttrs i attrs\<rparr> r s)))
          (Dir (cfg h)) (logFilename (cfg h) (time_Format_date (Time r)))
        = Some (case content (sys s) (Dir (cfg h)) (logFilename (cfg h) (time_Format_date (Time r))) of
                  None \<Rightarrow> [] | Some c \<Rightarrow> c)"
proof -
  let ?wr = "\<lparr>original = p, inner = slog_WithAttrs i attrs\<rparr>"
  let ?d = "Dir (cfg h)" and ?n = "logFilename (cfg h) (time_Format_date (Time r))"
  from inv f i have fi: "writer i = f" "f < length (files (sys s))"
    by (auto simp: open_for_day_def)
  from rotate_new_day [OF inv day opn f] obtain w1 h1 where
    rot: "rotateIfNeeded (Time r) h (sys s) = (None, h1, w1)"
    and fl: "files w1 = (files (sys s))[f := (files (sys s) ! f)\<lparr>fopen := False\<rparr>]
                       @ [\<lparr>fdir = ?d, fname = ?n, fopen = True\<rparr>]"
    and ct: "\<forall>d' n'. content w1 d' n' =
               (if d' = ?d \<and> n' = ?n then Some (case content (sys s) d' n' of None \<Rightarrow> [] | Some c \<Rightarrow> c)
                else content (sys s) d' n')"
    by blast
  have "\<not> fopen (files w1 ! f)"
    using fl fi(2) by (simp add: nth_append)
  then have wr: "slog_Handle (slog_WithAttrs i attrs) r w1 = (Some ErrClosed, w1)"
    using fi(1) by (simp add: slog_Handle_def slog_WithAttrs_def os_File_Write_def)
  have "fileHandlerWrapper_Handle ?wr r s = (Some ErrClosed, s\<lparr>sys := w1, heap := (heap s)[p := h1]\<rparr>)"
    using p rot wr by (simp add: fileHandlerWrapper_Handle_def)
  then show ?thesis
    using i ct by (simp add: DailyFileHandler_WithAttrs_def)
qed

lemma ex_WithAttrs: "DailyFileHandler_WithAttrs 0 ex_sink ex_attrs = Wrapper ex_wrapper"
  by (simp add: DailyFileHandler_WithAttrs_def ex_sink_def ex_wrapper_def slog_WithAttrs_def)

lemma ex_wrapper_same_day:
  "fileHandlerWrapper_Handle ex_wrapper ex_rec1 ex_proc =
     (None, ex_proc\<lparr>sys := ex_os\<lparr>fs := fs_append ''./logs'' ''app-2024-01-01.log''
                           [Formatted False ex_opts [BoundAttrs ex_attrs] ex_rec1] (fs ex_os)\<rparr>\<rparr>)"
  by (simp add: fileHandlerWrapper_Handle_def ex_wrapper_def ex_proc_def rotateIfNeeded_def ex_rec1_def
      day_of_rec1 ex_sink_def slog_Handle_def os_File_Write_def ex_os_def ex_std_def)

lemma ex_wrapper_rotate:
  "rotateIfNeeded (Time ex_rec2) ex_sink ex_os =
     (None,
      ex_sink\<lparr>curFile := Some 4,
               curInner := Some \<lparr>isJSON = False, writer = 4, hopts = ex_opts, bound = []\<rparr>,
               curDate := ''2024-01-02''\<rparr>,
      ex_os\<lparr>fs := (fs ex_os)(''./logs'' \<mapsto>
                 AList.update ''app-2024-01-02.log'' (File []) (the (fs ex_os ''./logs''))),
            files := files ex_os_closed
                     @ [\<lparr>fdir = ''./logs'', fname = ''app-2024-01-02.log'', fopen = True\<rparr>]\<rparr>)"
  by (simp add: rotateIfNeeded_def ex_rec2_def day_of_rec2 ex_sink_def ex_cfg_def logFilename_def
      os_File_Close_def os_OpenFile_def ex_os_closed_def ex_os_def ex_std_def Let_def
      slog_NewTextHandler_def LogFormatJSON_def ex_opts_def)

lemma ex_wrapper_next_day:
  "fileHandlerWrapper_Handle ex_wrapper ex_rec2 ex_proc =
     (Some ErrClosed,
      ex_proc\<lparr>sys := ex_os\<lparr>fs := (fs ex_os)(''./logs'' \<mapsto>
                 AList.update ''app-2024-01-02.log'' (File []) (the (fs ex_os ''./logs''))),
            files := files ex_os_closed
                     @ [\<lparr>fdir = ''./logs'', fname = ''app-2024-01-02.log'', fopen = True\<rparr>]\<rparr>,
              heap := [ex_sink\<lparr>curFile := Some 4,
               curInner := Some \<lparr>isJSON = False, writer = 4, hopts = ex_opts, bound = []\<rparr>,
               curDate := ''2024-01-02''\<rparr>]\<rparr>)"
  by (simp add: fileHandlerWrapper_Handle_def ex_wrapper_def ex_proc_def ex_wrapper_rotate
      slog_Handle_def os_File_Write_def ex_os_closed_def ex_std_def)

text \<open>
  C1 (the code departs from it). A record of the next day handed to the wrapper that
  \<open>WithAttrs\<close> returned is claimed to be written, with the bound attributes, to the new
  day's file. The wrapper's \<open>Handle\<close> does rotate the original sink (file 3 is closed,
  the file of 2024-01-02 is created and opened as file 4, the sink's own encoder is bound
  to it), but then writes through the encoder that was decorated when \<open>WithAttrs\<close> was
  called, which is still bound to file 3: the write fails with \<open>ErrClosed\<close>, and the new
  day's file stays empty.
\<close>

theorem wrapper_writes_through_stale_encoder:
  "DailyFileHandler_WithAttrs 0 ex_sink ex_attrs = Wrapper ex_wrapper
   \<and> open_for_day ex_sink ex_os
   \<and> fst (fileHandlerWrapper_Handle ex_wrapper ex_rec2 ex_proc) = Some ErrClosed
   \<and> curDate (heap (snd (fileHandlerWrapper_Handle ex_wrapper ex_rec2 ex_proc)) ! 0) = ''2024-01-02''
   \<and> curFile (heap (snd (fileHandlerWrapper_Handle ex_wrapper ex_rec2 ex_proc)) ! 0) = Some 4
   \<and> writer (inner ex_wrapper) = 3
   \<and> \<not> fopen (files (sys (snd (fileHandlerWrapper_Handle ex_wrapper ex_rec2 ex_proc))) ! 3)
   \<and> content (sys (snd (fileHandlerWrapper_Handle ex_wrapper ex_rec2 ex_proc)))
        ''./logs'' ''app-2024-01-02.log'' = Some []
   \<and> content (sys (snd (fileHandlerWrapper_Handle ex_wrapper ex_rec2 ex_proc)))
        ''./logs'' ''app-2024-01-01.log'' = Some []"
  using ex_WithAttrs ex_open
  by (simp add: ex_wrapper_next_day)
    (simp add: ex_wrapper_def ex_os_closed_def ex_std_def content_def ex_os_def)


section \<open>Claims on the terminal sink\<close>

lemma fs_append_twice: "fs_append d n b (fs_append d n a f) = fs_append d n (a @ b) f"
  by (auto simp: fs_append_def update_conv' split: option.splits entry.splits)

lemma TerminalHandler_Handle_open:
  assumes "colorize h" "out h < length (files w)" "fopen (files w ! out h)"
  shows "TerminalHandler_Handle h r w =
     (None, w\<lparr>fs := fs_append (fdir (files w ! out h)) (fname (files w ! out h))
                  [Bytes (levelColor (rLevel r)), Formatted False (topts h) [] r, Bytes colorReset]
                  (fs w)\<rparr>)"
  using assms by (simp add: TerminalHandler_Handle_def os_File_Write_def fs_append_twice)


lemma ex_term: "colorize (NewTerminalHandler os_Stderr ex_cfg)"
  "out (NewTerminalHandler os_Stderr ex_cfg) < length (files ex_os)"
  "fopen (files ex_os ! out (NewTerminalHandler os_Stderr ex_cfg))"
  "fdir (files ex_os ! out (NewTerminalHandler os_Stderr ex_cfg)) = ''/dev''"
  "fname (files ex_os ! out (NewTerminalHandler os_Stderr ex_cfg)) = ''stderr''"
  "topts (NewTerminalHandler os_Stderr ex_cfg) = ex_opts"
  by (simp_all add: NewTerminalHandler_def os_Stderr_def ex_os_def ex_std_def ex_cfg_def ex_opts_def)

lemma TerminalHandler_WithAttrs_same: "TerminalHandler_WithAttrs h attrs = h"
  by (cases h) (simp add: TerminalHandler_WithAttrs_def)

lemma TerminalHandler_WithGroup_same: "TerminalHandler_WithGroup h name = h"
  by (cases h) (simp add: TerminalHandler_WithGroup_def)



text \<open>
  C7. The terminal sink returned by \<open>WithAttrs\<close> or \<open>WithGroup\<close> behaves on every
  record and every state exactly as the sink it was derived from (\<open>Handle\<close> and
  \<open>Enabled\<close> alike); \<open>Handle\<close> does not depend on the field \<open>inner\<close> at all; and
  what an open colorizing sink writes for a record is the text encoding built from the
  handler options with no decoration bound, whatever attributes or group were given.
\<close>

theorem TerminalHandler_decoration_discarded:
  "TerminalHandler_Handle (TerminalHandler_WithAttrs h attrs) r w = TerminalHandler_Handle h r w
   \<and> TerminalHandler_Handle (TerminalHandler_WithGroup h name) r w = TerminalHandler_Handle h r w
   \<and> TerminalHandler_Handle (h\<lparr>tinner := x\<rparr>) r w = TerminalHandler_Handle h r w
   \<and> TerminalHandler_Enabled (TerminalHandler_WithAttrs h attrs) level = TerminalHandler_Enabled h level
   \<and> TerminalHandler_Enabled (TerminalHandler_WithGroup h name) level = TerminalHandler_Enabled h level
   \<and> (colorize h \<and> out h < length (files w) \<and> fopen (files w ! out h) \<longrightarrow>
        TerminalHandler_Handle (TerminalHandler_WithAttrs h attrs) r w =
          (None, w\<lparr>fs := fs_append (fdir (files w ! out h)) (fname (files w ! out h))
                       [Bytes (levelColor (rLevel r)), Formatted False (topts h) [] r, Bytes colorReset]
                       (fs w)\<rparr>)
        \<and> TerminalHandler_Handle (TerminalHandler_WithGroup h name) r w =
          (None, w\<lparr>fs := fs_append (fdir (files w ! out h)) (fname (files w ! out h))
                       [Bytes (levelColor (rLevel r)), Formatted False (topts h) [] r, Bytes colorReset]
                       (fs w)\<rparr>))"
proof -
  have a: "TerminalHandler_Handle (TerminalHandler_WithAttrs h attrs) r w = TerminalHandler_Handle h r w"
    by (simp add: TerminalHandler_WithAttrs_same)
  have g: "TerminalHandler_Handle (TerminalHandler_WithGroup h name) r w = TerminalHandler_Handle h r w"
    by (simp add: TerminalHandler_WithGroup_same)
  have i: "TerminalHandler_Handle (h\<lparr>tinner := x\<rparr>) r w = TerminalHandler_Handle h r w"
    by (simp add: TerminalHandler_Handle_def Let_def)
  have e: "TerminalHandler_Enabled (TerminalHandler_WithAttrs h attrs) level = TerminalHandler_Enabled h level"
    "TerminalHandler_Enabled (TerminalHandler_WithGroup h name) level = TerminalHandler_Enabled h level"
    by (simp_all add: TerminalHandler_WithAttrs_same TerminalHandler_WithGroup_same)
  show ?thesis
    using a g i e by (simp add: TerminalHandler_Handle_open)
qed

theorem TerminalHandler_decoration_discarded_witness:
  "colorize (NewTerminalHandler os_Stderr ex_cfg)
   \<and> out (NewTerminalHandler os_Stderr ex_cfg) < length (files ex_os)
   \<and> fopen (files ex_os ! out (NewTerminalHandler os_Stderr ex_cfg))
   \<and> TerminalHandler_Handle (TerminalHandler_WithAttrs (NewTerminalHandler os_Stderr ex_cfg) ex_attrs)
        ex_rec1 ex_os =
       (None, ex_os\<lparr>fs := fs_append ''/dev'' ''stderr''
                 [Bytes colorBlue, Formatted False ex_opts [] ex_rec1, Bytes colorReset] (fs ex_os)\<rparr>)
   \<and> TerminalHandler_Handle (NewTerminalHandler os_Stderr ex_cfg) ex_rec1 ex_os =
       (None, ex_os\<lparr>fs := fs_append ''/dev'' ''stderr''
                 [Bytes colorBlue, Formatted False ex_opts [] ex_rec1, Bytes colorReset] (fs ex_os)\<rparr>)"
proof -
  have c: "levelColor (rLevel ex_rec1) = colorBlue"
    by (simp add: levelColor_def ex_rec1_def LevelError_def LevelWarn_def LevelInfo_def)
  note T = TerminalHandler_decoration_discarded
    [of "NewTerminalHandler os_Stderr ex_cfg" ex_attrs ex_rec1 ex_os "''g''" None 0]
  have p: "colorize (NewTerminalHandler os_Stderr ex_cfg)
      \<and> out (NewTerminalHandler os_Stderr ex_cfg) < length (files ex_os)
      \<and> fopen (files ex_os ! out (NewTerminalHandler os_Stderr ex_cfg))"
    using ex_term by simp
  have d: "TerminalHandler_Handle (TerminalHandler_WithAttrs (NewTerminalHandler os_Stderr ex_cfg) ex_attrs)
        ex_rec1 ex_os =
       (None, ex_os\<lparr>fs := fs_append ''/dev'' ''stderr''
                 [Bytes colorBlue, Formatted False ex_opts [] ex_rec1, Bytes colorReset] (fs ex_os)\<rparr>)"
    using T [THEN conjunct2, THEN conjunct2, THEN conjunct2, THEN conjunct2, THEN conjunct2,
        THEN mp, OF p, THEN conjunct1]
    by (simp add: ex_term c)
  have u: "TerminalHandler_Handle (NewTerminalHandler os_Stderr ex_cfg) ex_rec1 ex_os =
       (None, ex_os\<lparr>fs := fs_append ''/dev'' ''stderr''
                 [Bytes colorBlue, Formatted False ex_opts [] ex_rec1, Bytes colorReset] (fs ex_os)\<rparr>)"
    using T [THEN conjunct1] d by simp
  show ?thesis using p d u by simp
qed

section \<open>Claims on the singleton\<close>

lemma InitLogger_done: "InitLogger c s = (res, s1) \<Longrightarrow> loggerOnce s1"
  by (auto simp: InitLogger_def Let_def split: if_splits option.splits)

lemma InitLogger_again:
  "InitLogger c s = (res, s1) \<Longrightarrow> InitLogger c' s1 = (res, s1)"
  by (auto simp: InitLogger_def Let_def split: if_splits option.splits)

lemma InitLogger_calls_done:
  "InitLogger c s = (res, s1) \<Longrightarrow> InitLogger_calls cs s1 = (replicate (length cs) res, s1)"
  by (induction cs) (simp_all add: InitLogger_again)

lemma InitLogger_first:
  "\<not> loggerOnce s \<Longrightarrow>
   InitLogger c s =
     ((case initErr (InitLogger_body c s) of
         Some err \<Rightarrow> (None, Some err)
       | None \<Rightarrow> (onceLogger (InitLogger_body c s), None)),
      (InitLogger_body c s)\<lparr>loggerOnce := True\<rparr>)"
  by (simp add: InitLogger_def Let_def split: option.splits)

lemma validate_None:
  "Output c = OutputNone \<Longrightarrow>
   validate c = (Some (Errorf ''output target cannot be OutputNone'' None), c)"
  by (simp add: validate_def)

lemma validate_defaults:
  assumes "Output c AND OutputFile \<noteq> 0"
  shows "Dir (snd (validate c)) = (if Dir c = [] then ''./logs'' else Dir c)"
    and "FilenamePrefix (snd (validate c)) = (if FilenamePrefix c = [] then ''app'' else FilenamePrefix c)"
    and "RetainDays (snd (validate c)) = (if RetainDays c \<le> 0 then 30 else RetainDays c)"
proof -
  from assms have "Output c \<noteq> OutputNone" by (auto simp: OutputNone_def)
  then show "Dir (snd (validate c)) = (if Dir c = [] then ''./logs'' else Dir c)"
    and "FilenamePrefix (snd (validate c)) = (if FilenamePrefix c = [] then ''app'' else FilenamePrefix c)"
    and "RetainDays (snd (validate c)) = (if RetainDays c \<le> 0 then 30 else RetainDays c)"
    using assms by (simp_all add: validate_def Let_def)
qed

lemma validate_format:
  assumes "Output c \<noteq> OutputNone"
  shows "Format (snd (validate c)) = (if Format c = [] then ''text'' else Format c)"
    and "fst (validate c) =
           (if Format c = [] \<or> Format c = ''text'' \<or> Format c = ''json'' then None
            else Some (Errorf (''unsupported log format: '' @ Format c) None))"
  using assms by (auto simp: validate_def Let_def LogFormatText_def LogFormatJSON_def)

lemma InitLogger_invalid:
  assumes "\<not> loggerOnce s" "fst (validate c) = Some err"
  shows "InitLogger c s =
     ((None, Some (Errorf ''invalid config: '' (Some err))),
      s\<lparr>initErr := Some (Errorf ''invalid config: '' (Some err)), loggerOnce := True\<rparr>)"
proof -
  from assms(2) have "InitLogger_body c s = s\<lparr>initErr := Some (Errorf ''invalid config: '' (Some err))\<rparr>"
    by (cases "validate c") (simp add: InitLogger_body_def)
  with assms(1) show ?thesis by (simp add: InitLogger_first)
qed

lemma Output_bits:
  "OutputBoth AND OutputFile \<noteq> 0" "OutputBoth AND OutputTerminal \<noteq> 0" "OutputBoth \<noteq> OutputNone"
  "OutputFile AND OutputTerminal = 0"
  by (simp_all add: OutputBoth_def OutputFile_def OutputTerminal_def OutputNone_def)

lemma Output_values: "OutputNone = 0" "OutputFile = 2" "OutputTerminal = 4" "OutputBoth = 6"
  by (simp_all add: OutputBoth_def OutputFile_def OutputTerminal_def OutputNone_def)

lemma ex_validate: "validate ex_cfg = (None, ex_cfg)"
  by (simp add: validate_def ex_cfg_def Output_bits LogFormatText_def LogFormatJSON_def Let_def)

lemma ex_body: "InitLogger_body ex_cfg ex_boot_proc = ex_proc\<lparr>loggerOnce := False\<rparr>"
proof -
  have o: "Output ex_cfg = OutputBoth" by (simp add: ex_cfg_def)
  have s: "sys ex_boot_proc = ex_boot" by (simp add: ex_boot_proc_def)
  show ?thesis
    by (simp add: InitLogger_body_def ex_validate o Output_bits(1,2) s ex_new)
      (simp add: ex_boot_proc_def ex_proc_def)
qed

lemma ex_Init: "InitLogger ex_cfg ex_boot_proc = ((Some 0, None), ex_proc)"
proof -
  have "\<not> loggerOnce ex_boot_proc" by (simp add: ex_boot_proc_def)
  then show ?thesis
    by (simp add: InitLogger_first ex_body ex_proc_def)
qed

lemma InitLogger_body_outcome:
  assumes "initErr s = None"
  shows "(\<exists>err. initErr (InitLogger_body c s) = Some err \<and> loggers (InitLogger_body c s) = loggers s
            \<and> onceLogger (InitLogger_body c s) = onceLogger s)
       \<or> (initErr (InitLogger_body c s) = None
          \<and> onceLogger (InitLogger_body c s) = Some (length (loggers s))
          \<and> length (loggers (InitLogger_body c s)) = Suc (length (loggers s)))"
  using assms
  by (auto simp: InitLogger_body_def Let_def split: prod.splits option.splits sum.splits if_splits)

text \<open>
  C3. Take any call \<open>InitLogger c\<close> and what it returned. In every run of calls that
  starts with it, whatever configurations the later callers pass, each caller receives
  that same outcome and the process is left in the state the first call left it in; a
  further call with any configuration changes nothing either. When the \<open>Once\<close> was not
  yet done, that state is the state after one run of the body on the first caller's
  configuration. From the start state of a process the outcome is either one failure,
  which is the memoized \<open>initErr\<close> and for which no logger was created, or the one
  logger that the body created.
\<close>

theorem InitLogger_runs_once:
  assumes "InitLogger c s = (res, s1)"
  shows "InitLogger_calls (c # cs) s = (replicate (Suc (length cs)) res, s1)
       \<and> InitLogger c' s1 = (res, s1)
       \<and> (\<not> loggerOnce s \<longrightarrow> s1 = (InitLogger_body c s)\<lparr>loggerOnce := True\<rparr>)
       \<and> (\<not> loggerOnce s \<and> initErr s = None \<longrightarrow>
            (\<exists>err. res = (None, Some err) \<and> initErr s1 = Some err \<and> loggers s1 = loggers s)
            \<or> (res = (Some (length (loggers s)), None) \<and> initErr s1 = None
                \<and> onceLogger s1 = Some (length (loggers s))
                \<and> length (loggers s1) = Suc (length (loggers s))))"
proof (intro conjI impI)
  show "InitLogger_calls (c # cs) s = (replicate (Suc (length cs)) res, s1)"
    using assms by (simp add: InitLogger_calls_done)
  show "InitLogger c' s1 = (res, s1)"
    using assms by (rule InitLogger_again)
next
  assume "\<not> loggerOnce s"
  then show "s1 = (InitLogger_body c s)\<lparr>loggerOnce := True\<rparr>"
    using assms by (simp add: InitLogger_first)
next
  assume a: "\<not> loggerOnce s \<and> initErr s = None"
  then have r: "res = (case initErr (InitLogger_body c s) of
         Some err \<Rightarrow> (None, Some err)
       | None \<Rightarrow> (onceLogger (InitLogger_body c s), None))"
    and s1: "s1 = (InitLogger_body c s)\<lparr>loggerOnce := True\<rparr>"
    using assms by (simp_all add: InitLogger_first)
  from a have "initErr s = None" by simp
  from InitLogger_body_outcome [OF this, of c]
  show "(\<exists>err. res = (None, Some err) \<and> initErr s1 = Some err \<and> loggers s1 = loggers s)
            \<or> (res = (Some (length (loggers s)), None) \<and> initErr s1 = None
                \<and> onceLogger s1 = Some (length (loggers s))
                \<and> length (loggers s1) = Suc (length (loggers s)))"
    using r s1 by auto
qed

theorem InitLogger_runs_once_witness:
  "InitLogger ex_cfg ex_boot_proc = ((Some 0, None), ex_proc)
   \<and> InitLogger_calls [ex_cfg, ex_cfg\<lparr>Output := OutputNone\<rparr>, ex_cfg\<lparr>Format := ''xml''\<rparr>] ex_boot_proc
       = ([(Some 0, None), (Some 0, None), (Some 0, None)], ex_proc)
   \<and> InitLogger (ex_cfg\<lparr>Output := OutputNone\<rparr>) ex_proc = ((Some 0, None), ex_proc)
   \<and> \<not> loggerOnce ex_boot_proc \<and> initErr ex_boot_proc = None
   \<and> length (loggers ex_proc) = Suc (length (loggers ex_boot_proc))"
proof -
  note T = InitLogger_runs_once [OF ex_Init,
      of "[ex_cfg\<lparr>Output := OutputNone\<rparr>, ex_cfg\<lparr>Format := ''xml''\<rparr>]" "ex_cfg\<lparr>Output := OutputNone\<rparr>"]
  have a: "InitLogger_calls [ex_cfg, ex_cfg\<lparr>Output := OutputNone\<rparr>, ex_cfg\<lparr>Format := ''xml''\<rparr>] ex_boot_proc
       = ([(Some 0, None), (Some 0, None), (Some 0, None)], ex_proc)"
    using T [THEN conjunct1] by (simp del: InitLogger_calls.simps)
  have b: "InitLogger (ex_cfg\<lparr>Output := OutputNone\<rparr>) ex_proc = ((Some 0, None), ex_proc)"
    by (rule T [THEN conjunct2, THEN conjunct1])
  have c: "\<not> loggerOnce ex_boot_proc \<and> initErr ex_boot_proc = None"
    by (simp add: ex_boot_proc_def)
  have d: "length (loggers ex_proc) = Suc (length (loggers ex_boot_proc))"
    by (simp add: ex_boot_proc_def ex_proc_def)
  show ?thesis using ex_Init a b c d by (simp del: InitLogger_calls.simps)
qed

text \<open>
  C10. Validation: the output selector \<open>OutputNone\<close> is rejected with the configuration
  untouched; when the file bit is set, a blank directory is replaced by \<open>./logs\<close>, a
  blank prefix by \<open>app\<close> and a retention count that is not positive by \<open>30\<close>; for
  any other selector than \<open>OutputNone\<close> an empty format becomes \<open>text\<close>, and
  validation succeeds exactly when the format is empty, \<open>text\<close> or \<open>json\<close>, failing
  with an unsupported-format error otherwise. A first \<open>InitLogger\<close> whose validation
  fails returns that failure and changes nothing but \<open>initErr\<close> and the \<open>Once\<close>: no
  directory, file, sink or logger is created. Any later \<open>InitLogger\<close>, with whatever
  configuration, returns the same failure and changes nothing.
\<close>

theorem validate_and_fail_once:
  "(Output c = OutputNone \<longrightarrow>
      validate c = (Some (Errorf ''output target cannot be OutputNone'' None), c))
   \<and> (Output c AND OutputFile \<noteq> 0 \<longrightarrow>
        Dir (snd (validate c)) = (if Dir c = [] then ''./logs'' else Dir c)
      \<and> FilenamePrefix (snd (validate c)) = (if FilenamePrefix c = [] then ''app'' else FilenamePrefix c)
      \<and> RetainDays (snd (validate c)) = (if RetainDays c \<le> 0 then 30 else RetainDays c))
   \<and> (Output c \<noteq> OutputNone \<longrightarrow>
        Format (snd (validate c)) = (if Format c = [] then ''text'' else Format c)
      \<and> fst (validate c) =
           (if Format c = [] \<or> Format c = ''text'' \<or> Format c = ''json'' then None
            else Some (Errorf (''unsupported log format: '' @ Format c) None)))
   \<and> (\<not> loggerOnce s \<and> fst (validate c) = Some err \<longrightarrow>
        InitLogger c s =
          ((None, Some (Errorf ''invalid config: '' (Some err))),
           s\<lparr>initErr := Some (Errorf ''invalid config: '' (Some err)), loggerOnce := True\<rparr>)
      \<and> InitLogger c'
           (s\<lparr>initErr := Some (Errorf ''invalid config: '' (Some err)), loggerOnce := True\<rparr>) =
          ((None, Some (Errorf ''invalid config: '' (Some err))),
           s\<lparr>initErr := Some (Errorf ''invalid config: '' (Some err)), loggerOnce := True\<rparr>))"
proof (intro conjI impI)
  assume "Output c = OutputNone"
  then show "validate c = (Some (Errorf ''output target cannot be OutputNone'' None), c)"
    by (rule validate_None)
next
  assume a: "Output c AND OutputFile \<noteq> 0"
  show "Dir (snd (validate c)) = (if Dir c = [] then ''./logs'' else Dir c)"
    by (rule validate_defaults(1) [OF a])
  show "FilenamePrefix (snd (validate c)) = (if FilenamePrefix c = [] then ''app'' else FilenamePrefix c)"
    by (rule validate_defaults(2) [OF a])
  show "RetainDays (snd (validate c)) = (if RetainDays c \<le> 0 then 30 else RetainDays c)"
    by (rule validate_defaults(3) [OF a])
next
  assume a: "Output c \<noteq> OutputNone"
  show "Format (snd (validate c)) = (if Format c = [] then ''text'' else Format c)"
    by (rule validate_format(1) [OF a])
  show "fst (validate c) =
           (if Format c = [] \<or> Format c = ''text'' \<or> Format c = ''json'' then None
            else Some (Errorf (''unsupported log format: '' @ Format c) None))"
    by (rule validate_format(2) [OF a])
next
  assume a: "\<not> loggerOnce s \<and> fst (validate c) = Some err"
  then have i: "InitLogger c s =
          ((None, Some (Errorf ''invalid config: '' (Some err))),
           s\<lparr>initErr := Some (Errorf ''invalid config: '' (Some err)), loggerOnce := True\<rparr>)"
    by (simp add: InitLogger_invalid)
  then show "InitLogger c s =
          ((None, Some (Errorf ''invalid config: '' (Some err))),
           s\<lparr>initErr := Some (Errorf ''invalid config: '' (Some err)), loggerOnce := True\<rparr>)" .
  from i show "InitLogger c'
           (s\<lparr>initErr := Some (Errorf ''invalid config: '' (Some err)), loggerOnce := True\<rparr>) =
          ((None, Some (Errorf ''invalid config: '' (Some err))),
           s\<lparr>initErr := Some (Errorf ''invalid config: '' (Some err)), loggerOnce := True\<rparr>)"
    by (rule InitLogger_again)
qed

theorem validate_and_fail_once_witness:
  "Output (ex_cfg\<lparr>Output := OutputNone\<rparr>) = OutputNone
   \<and> \<not> loggerOnce ex_boot_proc
   \<and> InitLogger (ex_cfg\<lparr>Output := OutputNone\<rparr>) ex_boot_proc =
       ((None, Some (Errorf ''invalid config: ''
                       (Some (Errorf ''output target cannot be OutputNone'' None)))),
        ex_boot_proc\<lparr>initErr := Some (Errorf ''invalid config: ''
                                      (Some (Errorf ''output target cannot be OutputNone'' None))),
                     loggerOnce := True\<rparr>)
   \<and> InitLogger ex_cfg
        (ex_boot_proc\<lparr>initErr := Some (Errorf ''invalid config: ''
                                      (Some (Errorf ''output target cannot be OutputNone'' None))),
                     loggerOnce := True\<rparr>) =
       ((None, Some (Errorf ''invalid config: ''
                       (Some (Errorf ''output target cannot be OutputNone'' None)))),
        ex_boot_proc\<lparr>initErr := Some (Errorf ''invalid config: ''
                                      (Some (Errorf ''output target cannot be OutputNone'' None))),
                     loggerOnce := True\<rparr>)
   \<and> Output ex_blank AND OutputFile \<noteq> 0
   \<and> Dir (snd (validate ex_blank)) = ''./logs''
   \<and> FilenamePrefix (snd (validate ex_blank)) = ''app''
   \<and> RetainDays (snd (validate ex_blank)) = 30
   \<and> Format (snd (validate ex_blank)) = ''text''
   \<and> fst (validate ex_blank) = None
   \<and> fst (validate (ex_cfg\<lparr>Format := ''xml''\<rparr>)) = Some (Errorf ''unsupported log format: xml'' None)"
proof -
  let ?c1 = "ex_cfg\<lparr>Output := OutputNone\<rparr>"
  let ?e = "Errorf ''output target cannot be OutputNone'' None"
  note T1 = validate_and_fail_once [of ?c1 ex_boot_proc ?e ex_cfg]
  note T2 = validate_and_fail_once [of ex_blank ex_boot_proc ?e ex_cfg]
  note T3 = validate_and_fail_once [of "ex_cfg\<lparr>Format := ''xml''\<rparr>" ex_boot_proc ?e ex_cfg]
  have o1: "Output ?c1 = OutputNone" by simp
  have v1: "validate ?c1 = (Some ?e, ?c1)"
    using T1 [THEN conjunct1] o1 by simp
  have f: "\<not> loggerOnce ex_boot_proc" by (simp add: ex_boot_proc_def)
  have p: "\<not> loggerOnce ex_boot_proc \<and> fst (validate ?c1) = Some ?e"
    using f v1 by simp
  note I = T1 [THEN conjunct2, THEN conjunct2, THEN conjunct2, THEN mp, OF p]
  have o2: "Output ex_blank AND OutputFile \<noteq> 0"
    by (simp add: ex_blank_def OutputFile_def)
  have n2: "Output ex_blank \<noteq> OutputNone"
    by (simp add: ex_blank_def OutputFile_def OutputNone_def)
  have d2: "Dir (snd (validate ex_blank)) = ''./logs''
      \<and> FilenamePrefix (snd (validate ex_blank)) = ''app''
      \<and> RetainDays (snd (validate ex_blank)) = 30"
    using T2 [THEN conjunct2, THEN conjunct1, THEN mp, OF o2] by (simp add: ex_blank_def)
  have f2: "Format (snd (validate ex_blank)) = ''text'' \<and> fst (validate ex_blank) = None"
    using T2 [THEN conjunct2, THEN conjunct2, THEN conjunct1, THEN mp, OF n2] by (simp add: ex_blank_def)
  have n3: "Output (ex_cfg\<lparr>Format := ''xml''\<rparr>) \<noteq> OutputNone"
    by (simp add: ex_cfg_def Output_bits)
  have f3: "fst (validate (ex_cfg\<lparr>Format := ''xml''\<rparr>)) = Some (Errorf ''unsupported log format: xml'' None)"
    using T3 [THEN conjunct2, THEN conjunct2, THEN conjunct1, THEN mp, OF n3, THEN conjunct2] by simp
  show ?thesis
    using o1 f I o2 d2 f2 f3 by simp
qed

section \<open>Claims on the fan-out dispatcher\<close>

lemma deliver_append:
  "deliver (xs @ ys) r w =
     (case deliver xs r w of (rs1, w1) \<Rightarrow>
        (case deliver ys r w1 of (rs2, w2) \<Rightarrow> (rs1 @ rs2, w2)))"
  by (induction xs arbitrary: w) (auto split: prod.splits)

lemma failures_simps [simp]:
  "failures [] = []"
  "failures (None # rs) = failures rs"
  "failures (Some err # rs) = err # failures rs"
  "failures (rs @ rs') = failures rs @ failures rs'"
  by (simp_all add: failures_def)

lemma failures_empty: "failures rs = [] \<longleftrightarrow> (\<forall>res \<in> set rs. res = None)"
  by (induction rs) (auto simp: failures_def split: option.splits)

lemma set_failures: "set (failures rs) = {err. Some err \<in> set rs}"
  by (induction rs) (auto simp: failures_def split: option.splits)

lemma loop_deliver:
  "MultiHandler_Handle_loop hs r errs w =
     (errs @ failures (fst (deliver hs r w)), snd (deliver hs r w))"
proof (induction hs arbitrary: errs w)
  case Nil
  show ?case by simp
next
  case (Cons h hs)
  show ?case
  proof (cases "Enabled h (rLevel r) w")
    case False
    then show ?thesis using Cons.IH by simp
  next
    case True
    obtain res w1 where h: "Handle h r w = (res, w1)" by (cases "Handle h r w")
    show ?thesis
      using True h Cons.IH [of "errs @ [the res]" w1] Cons.IH [of errs w1]
      by (cases res) (auto split: prod.splits)
  qed
qed

lemma MultiHandler_Handle_deliver:
  "MultiHandler_Handle hs r w =
     (if failures (fst (deliver hs r w)) = [] then None
      else Some (Joined (failures (fst (deliver hs r w)))),
      snd (deliver hs r w))"
  by (simp add: MultiHandler_Handle_def loop_deliver errors_Join_def)

lemma MultiHandler_Handle_state: "snd (MultiHandler_Handle hs r w) = snd (deliver hs r w)"
  by (simp add: MultiHandler_Handle_deliver)

lemma ex_wrapper_fails:
  "Handle (as_sink (Wrapper ex_wrapper)) ex_rec2 ex_proc = (Some ErrClosed, ex_rotated)"
  by (simp add: ex_wrapper_next_day ex_rotated_def)

lemma ex_wrapper_enabled: "Enabled (as_sink (Wrapper ex_wrapper)) (rLevel ex_rec2) ex_proc"
  by (simp add: Enabled_at_def ex_wrapper_def ex_proc_def DailyFileHandler_Enabled_def ex_sink_def
      ex_cfg_def ex_rec2_def)

lemma ex_terminal_after:
  "MultiHandler_Handle [as_sink (Terminal ex_terminal)] ex_rec2 ex_rotated =
     (None, ex_rotated\<lparr>sys := (sys ex_rotated)\<lparr>fs := fs_append ''/dev'' ''stderr''
                 [Bytes colorRed, Formatted False ex_opts [] ex_rec2, Bytes colorReset]
                 (fs (sys ex_rotated))\<rparr>\<rparr>)"
proof -
  have t: "colorize ex_terminal" "out ex_terminal < length (files (sys ex_rotated))"
    "fopen (files (sys ex_rotated) ! out ex_terminal)"
    "fdir (files (sys ex_rotated) ! out ex_terminal) = ''/dev''"
    "fname (files (sys ex_rotated) ! out ex_terminal) = ''stderr''"
    "topts ex_terminal = ex_opts"
    by (simp_all add: ex_terminal_def NewTerminalHandler_def os_Stderr_def ex_rotated_def
        ex_os_closed_def ex_std_def ex_cfg_def ex_opts_def)
  have c: "levelColor (rLevel ex_rec2) = colorRed"
    by (simp add: levelColor_def ex_rec2_def LevelError_def)
  have e: "TerminalHandler_Enabled ex_terminal (rLevel ex_rec2)"
    by (simp add: TerminalHandler_Enabled_def t ex_opts_def ex_rec2_def)
  show ?thesis
    by (simp add: MultiHandler_Handle_def e TerminalHandler_Handle_open [OF t(1,2,3)] t c errors_Join_def)
qed

text \<open>
  C2. \<open>MultiHandler.Handle\<close> hands the record to every member that is enabled for the
  record's level when its turn comes, whatever the members before it returned: its
  result is the outcome of \<open>deliver\<close>, and the state after dispatching to
  \<open>xs @ h # ys\<close> is the state after dispatching to \<open>xs\<close>, then \<open>h\<close>'s own \<open>Handle\<close> when
  \<open>h\<close> is enabled, then dispatching to \<open>ys\<close>. It returns nil exactly when no member
  that was handed the record failed, and otherwise one joined error that holds every
  member failure, in order; in particular the failure of any enabled member \<open>h\<close> is
  among the joined errors.
\<close>

theorem MultiHandler_Handle_all_enabled:
  "MultiHandler_Handle hs r w =
     (if failures (fst (deliver hs r w)) = [] then None
      else Some (Joined (failures (fst (deliver hs r w)))),
      snd (deliver hs r w))
   \<and> (fst (MultiHandler_Handle hs r w) = None
        \<longleftrightarrow> (\<forall>res \<in> set (fst (deliver hs r w)). res = None))
   \<and> (\<forall>err. Some err \<in> set (fst (deliver hs r w)) \<longrightarrow>
         (\<exists>errs. fst (MultiHandler_Handle hs r w) = Some (Joined errs) \<and> err \<in> set errs))
   \<and> (Enabled h (rLevel r) (snd (MultiHandler_Handle xs r w)) \<longrightarrow>
         snd (MultiHandler_Handle (xs @ h # ys) r w) =
           snd (MultiHandler_Handle ys r (snd (Handle h r (snd (MultiHandler_Handle xs r w)))))
         \<and> (\<forall>err. fst (Handle h r (snd (MultiHandler_Handle xs r w))) = Some err \<longrightarrow>
               (\<exists>errs. fst (MultiHandler_Handle (xs @ h # ys) r w) = Some (Joined errs)
                        \<and> err \<in> set errs)))
   \<and> (\<not> Enabled h (rLevel r) (snd (MultiHandler_Handle xs r w)) \<longrightarrow>
         snd (MultiHandler_Handle (xs @ h # ys) r w) =
           snd (MultiHandler_Handle ys r (snd (MultiHandler_Handle xs r w))))"
proof (intro conjI allI impI)
  show "MultiHandler_Handle hs r w =
     (if failures (fst (deliver hs r w)) = [] then None
      else Some (Joined (failures (fst (deliver hs r w)))),
      snd (deliver hs r w))"
    by (rule MultiHandler_Handle_deliver)
  show "fst (MultiHandler_Handle hs r w) = None
        \<longleftrightarrow> (\<forall>res \<in> set (fst (deliver hs r w)). res = None)"
    by (simp add: MultiHandler_Handle_deliver failures_empty)
next
  fix err assume "Some err \<in> set (fst (deliver hs r w))"
  then have "err \<in> set (failures (fst (deliver hs r w)))"
    by (simp add: set_failures)
  then show "\<exists>errs. fst (MultiHandler_Handle hs r w) = Some (Joined errs) \<and> err \<in> set errs"
    by (auto simp: MultiHandler_Handle_deliver)
next
  assume "Enabled h (rLevel r) (snd (MultiHandler_Handle xs r w))"
  then show "snd (MultiHandler_Handle (xs @ h # ys) r w) =
           snd (MultiHandler_Handle ys r (snd (Handle h r (snd (MultiHandler_Handle xs r w)))))"
    by (auto simp: MultiHandler_Handle_state deliver_append split: prod.splits)
next
  fix err
  assume en: "Enabled h (rLevel r) (snd (MultiHandler_Handle xs r w))"
    and e: "fst (Handle h r (snd (MultiHandler_Handle xs r w))) = Some err"
  then have "Some err \<in> set (fst (deliver (xs @ h # ys) r w))"
    by (auto simp: MultiHandler_Handle_state deliver_append split: prod.splits)
  then have "err \<in> set (failures (fst (deliver (xs @ h # ys) r w)))"
    by (simp add: set_failures)
  then show "\<exists>errs. fst (MultiHandler_Handle (xs @ h # ys) r w) = Some (Joined errs) \<and> err \<in> set errs"
    by (auto simp: MultiHandler_Handle_deliver)
next
  assume "\<not> Enabled h (rLevel r) (snd (MultiHandler_Handle xs r w))"
  then show "snd (MultiHandler_Handle (xs @ h # ys) r w) =
           snd (MultiHandler_Handle ys r (snd (MultiHandler_Handle xs r w)))"
    by (auto simp: MultiHandler_Handle_state deliver_append split: prod.splits)
qed

theorem MultiHandler_Handle_all_enabled_witness:
  "Enabled (as_sink (Wrapper ex_wrapper)) (rLevel ex_rec2) ex_proc
   \<and> fst (Handle (as_sink (Wrapper ex_wrapper)) ex_rec2 ex_proc) = Some ErrClosed
   \<and> (\<exists>errs. fst (MultiHandler_Handle
                     (map as_sink [Wrapper ex_wrapper, Terminal ex_terminal]) ex_rec2 ex_proc)
               = Some (Joined errs) \<and> ErrClosed \<in> set errs)
   \<and> content (sys (snd (MultiHandler_Handle
                     (map as_sink [Wrapper ex_wrapper, Terminal ex_terminal]) ex_rec2 ex_proc)))
        ''/dev'' ''stderr''
      = Some [Bytes colorRed, Formatted False ex_opts [] ex_rec2, Bytes colorReset]"
proof -
  let ?W = "as_sink (Wrapper ex_wrapper)"
  let ?T = "as_sink (Terminal ex_terminal)"
  note T = MultiHandler_Handle_all_enabled [of "[]" ex_rec2 ex_proc ?W "[]" "[?T]",
      THEN conjunct2, THEN conjunct2, THEN conjunct2, THEN conjunct1]
  have n: "snd (MultiHandler_Handle [] ex_rec2 ex_proc) = ex_proc"
    by (simp add: MultiHandler_Handle_def)
  have en: "Enabled ?W (rLevel ex_rec2) (snd (MultiHandler_Handle [] ex_rec2 ex_proc))"
    using ex_wrapper_enabled n by simp
  have f: "fst (Handle ?W ex_rec2 ex_proc) = Some ErrClosed"
    by (simp add: ex_wrapper_fails del: as_sink.simps)
  from T [THEN mp, OF en]
  have st: "snd (MultiHandler_Handle ([] @ ?W # [?T]) ex_rec2 ex_proc) =
      snd (MultiHandler_Handle [?T] ex_rec2 (snd (Handle ?W ex_rec2 ex_proc)))"
    and er: "\<exists>errs. fst (MultiHandler_Handle ([] @ ?W # [?T]) ex_rec2 ex_proc) = Some (Joined errs)
                \<and> ErrClosed \<in> set errs"
    using f n by (simp_all del: as_sink.simps)
  have "content (sys (snd (MultiHandler_Handle ([] @ ?W # [?T]) ex_rec2 ex_proc))) ''/dev'' ''stderr''
      = Some [Bytes colorRed, Formatted False ex_opts [] ex_rec2, Bytes colorReset]"
    by (simp only: st ex_wrapper_fails snd_conv ex_terminal_after)
      (simp add: content_fs_append, simp add: content_def ex_rotated_def ex_os_def ex_dev_def)
  then show ?thesis
    using ex_wrapper_enabled f er by (simp del: as_sink.simps)
qed

section \<open>Claims on the retention sweep\<close>











end
